theory Spec2Isabelle
  imports Main "HOL-Library.Word"
begin

unbundle bit_operations_syntax

section \<open>Data model of the audio module\<close>

text \<open>
  The types of \<open>android.media.audio.common\<close> that \<open>Module.cpp\<close> works on. An AIDL
  enum is a datatype of its enumerators, an AIDL union a datatype with one constructor
  per tag, a parcelable a record. Fields that \<open>Module.cpp\<close> never reads are left out.
  Identifiers (\<open>int32_t\<close> in the source) are \<open>int\<close>: they are compared, used as keys
  and incremented, and the counters stay far below \<open>INT32_MAX\<close> (signed overflow is
  undefined in C++ and is no part of this model). Bit fields are \<open>32 word\<close>.
\<close>

datatype PcmType =
  UINT_8_BIT | INT_16_BIT | INT_32_BIT | FIXED_Q_8_24 | FLOAT_32_BIT | INT_24_BIT

datatype AudioFormatType = NON_PCM | PCM | SYS_RESERVED_INVALID

record AudioFormatDescription =
  fmt_type :: AudioFormatType
  pcm :: PcmType
  encoding :: string

datatype AudioChannelLayout =
    Tag_none "32 word"
  | Tag_invalid "32 word"
  | Tag_indexMask "32 word"
  | Tag_layoutMask "32 word"
  | Tag_voiceMask "32 word"

datatype AudioIoFlags = Tag_input "32 word" | Tag_output "32 word"

record AudioProfile =
  prof_format :: AudioFormatDescription
  channelMasks :: "AudioChannelLayout list"
  sampleRates :: "int list"

record AudioDevice =
  dev_type :: int
  connection :: string
  address :: string

record AudioPortMixExt =
  maxOpenStreamCount :: int

datatype AudioPortExt =
    Tag_unspecified
  | Tag_device AudioDevice
  | Tag_mix AudioPortMixExt
  | Tag_session int

record AudioPort =
  port_id :: int
  profiles :: "AudioProfile list"
  port_flags :: AudioIoFlags
  extraAudioDescriptors :: "string list"
  port_ext :: AudioPortExt

record AudioPortConfig =
  cfg_id :: int
  portId :: int
  sampleRate :: "int option"
  channelMask :: "AudioChannelLayout option"
  format :: "AudioFormatDescription option"
  gain :: "int option"
  cfg_flags :: "AudioIoFlags option"
  cfg_ext :: AudioPortExt

record AudioPatch =
  patch_id :: int
  sourcePortConfigIds :: "int list"
  sinkPortConfigIds :: "int list"
  minimumStreamBufferSizeFrames :: int
  latenciesMs :: "int list"

record AudioRoute =
  sourcePortIds :: "int list"
  sinkPortId :: int
  isExclusive :: bool

text \<open>
  A stream object as the module sees it: the arguments it was made from.
\<close>

datatype StreamWrapper =
    StreamIn string
  | StreamOut string "string option"

text \<open>
  The module: the fields of \<open>internal::Configuration\<close> (reached through \<open>getConfig()\<close>
  in the source) and the members of \<open>Module\<close>. \<open>mPatches\<close> is a
  \<open>std::multimap<int32_t, int32_t>\<close> from port config ids and port ids to patch ids: a
  list of pairs in key order, equal keys in insertion order. \<open>mStreams\<close> is the multimap
  of the stream registry. \<open>mConnectedDevicePorts\<close> is a \<open>std::set<int32_t>\<close>: a
  list in ascending order. \<open>connectedProfiles\<close> is a \<open>std::map\<close>, read with \<open>map_of\<close>.
\<close>

record Module =
  ports :: "AudioPort list"
  portConfigs :: "AudioPortConfig list"
  initialConfigs :: "AudioPortConfig list"
  connectedProfiles :: "(int \<times> AudioProfile list) list"
  routes :: "AudioRoute list"
  patches :: "AudioPatch list"
  nextPortId :: int
  nextPatchId :: int
  mPatches :: "(int \<times> int) list"
  mStreams :: "(int \<times> StreamWrapper) list"
  mConnectedDevicePorts :: "int list"
  simulateDeviceConnections :: bool

text \<open>
  Modelled from the spec: the constants \<open>kMinimumStreamBufferSizeFrames\<close>,
  \<open>kMaximumStreamBufferSizeBytes\<close> and \<open>kLatencyMs\<close> of \<open>core-impl/Module.h\<close> (the
  spec's configured minimum-frames threshold, maximum byte ceiling and fixed per-sink
  latency) and the enumerator \<open>AudioOutputFlags::COMPRESS_OFFLOAD\<close> are declared
  outside the sources at hand; every function that reads one takes this record.
\<close>

record ModuleConstants =
  kMinimumStreamBufferSizeFrames :: int
  kMaximumStreamBufferSizeBytes :: int
  kLatencyMs :: int
  COMPRESS_OFFLOAD :: nat

text \<open>
  What a binder call returns when it does not succeed: one of the two exception codes, or
  \<open>Aborted\<close> when the process dies (a failed \<open>CHECK\<close>, \<open>value()\<close> of an empty optional,
  \<open>get\<close> of a union with another tag, a dereferenced \<open>end()\<close> iterator).
\<close>

datatype error = EX_ILLEGAL_ARGUMENT | EX_ILLEGAL_STATE | Aborted

section \<open>Helpers of \<open>core-impl/utils.h\<close>\<close>

text \<open>
  Modelled from the spec: \<open>findById\<close>, \<open>selectByIds\<close>, \<open>all_unique\<close>, \<open>erase_if\<close> and
  \<open>erase_all_values\<close> are templates of \<open>core-impl/utils.h\<close>, which is not among the
  sources. \<open>findById\<close> looks an element up by its id and returns an iterator: here the
  position of the first element with that id, \<open>None\<close> for \<open>end()\<close>.
\<close>

fun find_pos :: "('a \<Rightarrow> bool) \<Rightarrow> 'a list \<Rightarrow> nat option" where
  "find_pos P [] = None"
| "find_pos P (x # xs) = (if P x then Some 0 else map_option Suc (find_pos P xs))"

definition findById :: "('a \<Rightarrow> int) \<Rightarrow> 'a list \<Rightarrow> int \<Rightarrow> nat option" where
  "findById getId v i = find_pos (\<lambda>e. getId e = i) v"

text \<open>\<open>v.erase(it)\<close> for an iterator at position \<open>i\<close>.\<close>

definition erase_at :: "nat \<Rightarrow> 'a list \<Rightarrow> 'a list" where
  "erase_at i v = take i v @ drop (Suc i) v"

text \<open>\<open>erase_if(c, pred)\<close> removes every element that satisfies \<open>pred\<close>.\<close>

definition erase_if :: "'a list \<Rightarrow> ('a \<Rightarrow> bool) \<Rightarrow> 'a list" where
  "erase_if c pred = filter (\<lambda>e. \<not> pred e) c"

text \<open>\<open>erase_all_values(c, values)\<close> removes every entry of a multimap whose value is
  one of \<open>values\<close>.\<close>

definition erase_all_values :: "('k \<times> 'v) list \<Rightarrow> 'v list \<Rightarrow> ('k \<times> 'v) list" where
  "erase_all_values c values = erase_if c (\<lambda>entry. snd entry \<in> set values)"

definition all_unique :: "int list \<Rightarrow> bool" where
  "all_unique v = distinct v"

text \<open>
  \<open>selectByIds(v, ids, &missingIds)\<close>: the elements of \<open>v\<close> whose id is requested (the
  first one for each id, in the order of \<open>v\<close>), and in \<open>missingIds\<close> every requested id
  that no element of \<open>v\<close> has, in ascending order.
\<close>

fun selectByIds_loop :: "('a \<Rightarrow> int) \<Rightarrow> 'a list \<Rightarrow> int list \<Rightarrow> 'a list \<times> int list" where
  "selectByIds_loop getId [] idsSet = ([], idsSet)"
| "selectByIds_loop getId (e # v) idsSet =
     (if getId e \<in> set idsSet
      then (let (result, rest) = selectByIds_loop getId v (removeAll (getId e) idsSet)
            in (e # result, rest))
      else selectByIds_loop getId v idsSet)"

definition selectByIds :: "('a \<Rightarrow> int) \<Rightarrow> 'a list \<Rightarrow> int list \<Rightarrow> 'a list \<times> int list" where
  "selectByIds getId v ids = selectByIds_loop getId v (sort (remdups ids))"

text \<open>The operations of \<open>std::multimap\<close> that the module uses.\<close>

definition mm_insert :: "int \<times> 'v \<Rightarrow> (int \<times> 'v) list \<Rightarrow> (int \<times> 'v) list" where
  "mm_insert entry m =
     takeWhile (\<lambda>e. fst e \<le> fst entry) m @ entry # dropWhile (\<lambda>e. fst e \<le> fst entry) m"

definition mm_count :: "(int \<times> 'v) list \<Rightarrow> int \<Rightarrow> nat" where
  "mm_count m k = length (filter (\<lambda>e. fst e = k) m)"

definition mm_equal_range :: "(int \<times> 'v) list \<Rightarrow> int \<Rightarrow> (int \<times> 'v) list" where
  "mm_equal_range m k = filter (\<lambda>e. fst e = k) m"

section \<open>Frame size (\<open>Module.cpp\<close>, anonymous namespace)\<close>

text \<open>\<open>__builtin_popcount\<close> on an \<open>unsigned int\<close>: the number of bits set.\<close>

definition builtin_popcount :: "32 word \<Rightarrow> nat" where
  "builtin_popcount w = length (filter (bit w) [0..<32])"

text \<open>The \<open>return 0\<close> after each \<open>switch\<close> of the source is reached by no enumerator.\<close>

fun getPcmSampleSizeInBytes :: "PcmType \<Rightarrow> nat" where
  "getPcmSampleSizeInBytes UINT_8_BIT = 1"
| "getPcmSampleSizeInBytes INT_16_BIT = 2"
| "getPcmSampleSizeInBytes INT_32_BIT = 4"
| "getPcmSampleSizeInBytes FIXED_Q_8_24 = 4"
| "getPcmSampleSizeInBytes FLOAT_32_BIT = 4"
| "getPcmSampleSizeInBytes INT_24_BIT = 3"

fun getChannelCount :: "AudioChannelLayout \<Rightarrow> nat" where
  "getChannelCount (Tag_none _) = 0"
| "getChannelCount (Tag_invalid _) = 0"
| "getChannelCount (Tag_indexMask m) = builtin_popcount m"
| "getChannelCount (Tag_layoutMask m) = builtin_popcount m"
| "getChannelCount (Tag_voiceMask m) = builtin_popcount m"

definition getFrameSizeInBytes :: "AudioFormatDescription \<Rightarrow> AudioChannelLayout \<Rightarrow> nat" where
  "getFrameSizeInBytes fmt layout =
     (if fmt_type fmt = PCM
      then getPcmSampleSizeInBytes (pcm fmt) * getChannelCount layout
      else 1)"

section \<open>Stream descriptors\<close>

text \<open>
  The arithmetic of \<open>frameSize > kMaximumStreamBufferSizeBytes / in_bufferSizeFrames\<close>:
  the quotient is a signed 64-bit division, which truncates towards zero, and the
  comparison with the \<open>size_t\<close> on the left converts it to an unsigned 64-bit value.
\<close>

definition cpp_div :: "int \<Rightarrow> int \<Rightarrow> int" where
  "cpp_div a b = sgn a * sgn b * (\<bar>a\<bar> div \<bar>b\<bar>)"

definition to_size_t :: "int \<Rightarrow> nat" where
  "to_size_t x = nat (x mod 2 ^ 64)"

text \<open>
  \<open>Module::createStreamDescriptor\<close>. The port config id is not checked (the source assumes
  its caller did): dereferencing \<open>end()\<close>, or an empty \<open>format\<close> or \<open>channelMask\<close>, ends
  the process. The descriptor itself is not filled in by the source, so success is \<open>()\<close>.
\<close>

definition createStreamDescriptor ::
    "ModuleConstants \<Rightarrow> Module \<Rightarrow> int \<Rightarrow> int \<Rightarrow> error + unit" where
  "createStreamDescriptor K s in_portConfigId in_bufferSizeFrames =
     (if in_bufferSizeFrames \<le> 0 then Inl EX_ILLEGAL_ARGUMENT
      else if in_bufferSizeFrames < kMinimumStreamBufferSizeFrames K then Inl EX_ILLEGAL_ARGUMENT
      else case findById cfg_id (portConfigs s) in_portConfigId of
        None \<Rightarrow> Inl Aborted
      | Some i \<Rightarrow>
          (case (format (portConfigs s ! i), channelMask (portConfigs s ! i)) of
            (Some fmt, Some layout) \<Rightarrow>
              (let frameSize = getFrameSizeInBytes fmt layout in
               if frameSize = 0 then Inl EX_ILLEGAL_ARGUMENT
               else if frameSize >
                  to_size_t (cpp_div (kMaximumStreamBufferSizeBytes K) in_bufferSizeFrames)
               then Inl EX_ILLEGAL_ARGUMENT
               else Inr ())
          | _ \<Rightarrow> Inl Aborted))"

text \<open>\<open>std::map\<close>: one entry per key, in key order. \<open>map_set\<close> is the assignment
  \<open>m[k] = v\<close>; a key is looked up with \<open>map_of\<close>.\<close>

fun map_set :: "int \<Rightarrow> 'v \<Rightarrow> (int \<times> 'v) list \<Rightarrow> (int \<times> 'v) list" where
  "map_set k v [] = [(k, v)]"
| "map_set k v (e # m) =
     (if k = fst e then (k, v) # m
      else if k < fst e then (k, v) # e # m
      else e # map_set k v m)"

text \<open>\<open>std::set\<close>: \<open>insert\<close> and \<open>erase\<close> on an ascending list without duplicates.\<close>

definition set_insert :: "int \<Rightarrow> int list \<Rightarrow> int list" where
  "set_insert x xs = (if x \<in> set xs then xs else insort x xs)"

definition set_erase :: "int \<Rightarrow> int list \<Rightarrow> int list" where
  "set_erase x xs = removeAll x xs"

section \<open>Default port configs and profiles\<close>

text \<open>\<open>generateDefaultPortConfig\<close> returns \<open>false\<close> where this returns \<open>None\<close>.\<close>

definition generateDefaultPortConfig :: "AudioPort \<Rightarrow> AudioPortConfig option" where
  "generateDefaultPortConfig port =
     (case profiles port of
        [] \<Rightarrow> None
      | profile # _ \<Rightarrow>
          (case channelMasks profile of
             [] \<Rightarrow> None
           | layout # _ \<Rightarrow>
               (case sampleRates profile of
                  [] \<Rightarrow> None
                | rate # _ \<Rightarrow>
                    Some \<lparr>cfg_id = 0, portId = port_id port, sampleRate = Some rate,
                          channelMask = Some layout, format = Some (prof_format profile),
                          gain = None, cfg_flags = Some (port_flags port),
                          cfg_ext = port_ext port\<rparr>)))"

definition findAudioProfile :: "AudioPort \<Rightarrow> AudioFormatDescription \<Rightarrow> AudioProfile option" where
  "findAudioProfile port fmt = List.find (\<lambda>profile. prof_format profile = fmt) (profiles port)"

section \<open>The patch index\<close>

definition cleanUpPatch :: "Module \<Rightarrow> int \<Rightarrow> Module" where
  "cleanUpPatch s patchId = s\<lparr>mPatches := erase_all_values (mPatches s) [patchId]\<rparr>"

text \<open>The two \<open>erase_if\<close> calls on a patch found through the index.\<close>

definition strip_config :: "int \<Rightarrow> AudioPatch \<Rightarrow> AudioPatch" where
  "strip_config portConfigId patch =
     patch\<lparr>sourcePortConfigIds := erase_if (sourcePortConfigIds patch) (\<lambda>e. e = portConfigId),
           sinkPortConfigIds := erase_if (sinkPortConfigIds patch) (\<lambda>e. e = portConfigId)\<rparr>"

text \<open>First loop of \<open>cleanUpPatches\<close>: over the index entries of \<open>portConfigId\<close>.\<close>

fun cleanUpPatches_strip :: "int \<Rightarrow> (int \<times> int) list \<Rightarrow> AudioPatch list \<Rightarrow> AudioPatch list" where
  "cleanUpPatches_strip portConfigId [] ps = ps"
| "cleanUpPatches_strip portConfigId (it # rest) ps =
     (case findById patch_id ps (snd it) of
        None \<Rightarrow> cleanUpPatches_strip portConfigId rest ps
      | Some i \<Rightarrow>
          cleanUpPatches_strip portConfigId rest (ps[i := strip_config portConfigId (ps ! i)]))"

text \<open>
  Second loop of \<open>cleanUpPatches\<close>:
  \<open>for (size_t i = patches.size() - 1; i != 0; --i)\<close>. The first argument is \<open>i\<close>; the
  loop ends when it is 0, before looking at \<open>patches[0]\<close>.
\<close>

fun cleanUpPatches_erase :: "nat \<Rightarrow> AudioPatch list \<Rightarrow> int list \<Rightarrow> AudioPatch list \<times> int list" where
  "cleanUpPatches_erase 0 ps erasedPatches = (ps, erasedPatches)"
| "cleanUpPatches_erase (Suc n) ps erasedPatches =
     (let patch = ps ! Suc n in
      if sourcePortConfigIds patch = [] \<or> sinkPortConfigIds patch = []
      then cleanUpPatches_erase n (erase_at (Suc n) ps) (erasedPatches @ [patch_id patch])
      else cleanUpPatches_erase n ps erasedPatches)"

definition cleanUpPatches :: "Module \<Rightarrow> int \<Rightarrow> Module" where
  "cleanUpPatches s portConfigId =
     (if length (patches s) = 0 then s
      else
        (let entries = mm_equal_range (mPatches s) portConfigId;
             stripped = cleanUpPatches_strip portConfigId entries (patches s);
             (kept, erasedPatches) = cleanUpPatches_erase (length stripped - 1) stripped []
         in s\<lparr>patches := kept, mPatches := erase_all_values (mPatches s) erasedPatches\<rparr>))"

text \<open>The lambda \<open>do_insert\<close> of \<open>registerPatch\<close>.\<close>

fun do_insert :: "AudioPortConfig list \<Rightarrow> int \<Rightarrow> int list \<Rightarrow> (int \<times> int) list \<Rightarrow> (int \<times> int) list" where
  "do_insert configs patchId [] m = m"
| "do_insert configs patchId (portConfigId # rest) m =
     (case findById cfg_id configs portConfigId of
        None \<Rightarrow> do_insert configs patchId rest m
      | Some i \<Rightarrow>
          (let m1 = mm_insert (portConfigId, patchId) m;
               m2 = (if portId (configs ! i) \<noteq> portConfigId
                     then mm_insert (portId (configs ! i), patchId) m1 else m1)
           in do_insert configs patchId rest m2))"

definition registerPatch :: "Module \<Rightarrow> AudioPatch \<Rightarrow> Module" where
  "registerPatch s patch =
     s\<lparr>mPatches :=
         do_insert (portConfigs s) (patch_id patch) (sinkPortConfigIds patch)
           (do_insert (portConfigs s) (patch_id patch) (sourcePortConfigIds patch) (mPatches s))\<rparr>"

section \<open>Streams\<close>

text \<open>
  Modelled from the spec: the stream registry \<open>mStreams\<close> (class \<open>Streams\<close>, not among
  the sources). \<open>insert(portId, portConfigId, stream)\<close> registers a stream under the port
  id and under the port config id, and \<open>count(id)\<close> is the number of streams registered
  under \<open>id\<close>: a multimap, with \<open>mm_count\<close> for \<open>count\<close>.
\<close>

definition streams_insert ::
    "int \<Rightarrow> int \<Rightarrow> StreamWrapper \<Rightarrow> (int \<times> StreamWrapper) list \<Rightarrow> (int \<times> StreamWrapper) list" where
  "streams_insert pId portConfigId sw m = mm_insert (pId, sw) (mm_insert (portConfigId, sw) m)"

text \<open>
  \<open>Module::findPortIdForNewStream\<close>; on success the position of the port in \<open>ports\<close>
  (the source returns a pointer to it). \<open>CHECK(portId != in_portConfigId)\<close> ends the
  process when it fails.
\<close>

definition findPortIdForNewStream :: "Module \<Rightarrow> int \<Rightarrow> error + nat" where
  "findPortIdForNewStream s in_portConfigId =
     (case findById cfg_id (portConfigs s) in_portConfigId of
        None \<Rightarrow> Inl EX_ILLEGAL_ARGUMENT
      | Some ci \<Rightarrow>
          (let pId = portId (portConfigs s ! ci) in
           if pId = in_portConfigId then Inl Aborted
           else case findById port_id (ports s) pId of
             None \<Rightarrow> Inl EX_ILLEGAL_ARGUMENT
           | Some pi \<Rightarrow>
               if mm_count (mStreams s) in_portConfigId \<noteq> 0 then Inl EX_ILLEGAL_STATE
               else (case port_ext (ports s ! pi) of
                  Tag_mix mixExt \<Rightarrow>
                    if maxOpenStreamCount mixExt \<noteq> 0
                       \<and> mm_count (mStreams s) pId \<ge> to_size_t (maxOpenStreamCount mixExt)
                    then Inl EX_ILLEGAL_STATE
                    else Inr pi
                | _ \<Rightarrow> Inl EX_ILLEGAL_ARGUMENT)))"

record OpenInputStreamArguments =
  in_portConfigId :: int
  sinkMetadata :: string
  in_bufferSizeFrames :: int

record OpenOutputStreamArguments =
  out_portConfigId :: int
  sourceMetadata :: string
  offloadInfo :: "string option"
  out_bufferSizeFrames :: int

definition openInputStream ::
    "ModuleConstants \<Rightarrow> Module \<Rightarrow> OpenInputStreamArguments \<Rightarrow> (error + StreamWrapper) \<times> Module" where
  "openInputStream K s in_args =
     (case findPortIdForNewStream s (in_portConfigId in_args) of
        Inl status \<Rightarrow> (Inl status, s)
      | Inr pi \<Rightarrow>
          (case port_flags (ports s ! pi) of
             Tag_output _ \<Rightarrow> (Inl EX_ILLEGAL_ARGUMENT, s)
           | Tag_input _ \<Rightarrow>
               (case createStreamDescriptor K s (in_portConfigId in_args)
                       (in_bufferSizeFrames in_args) of
                  Inl status \<Rightarrow> (Inl status, s)
                | Inr _ \<Rightarrow>
                    (let stream = StreamIn (sinkMetadata in_args) in
                     (Inr stream,
                      s\<lparr>mStreams := streams_insert (port_id (ports s ! pi))
                            (in_portConfigId in_args) stream (mStreams s)\<rparr>)))))"

definition openOutputStream ::
    "ModuleConstants \<Rightarrow> Module \<Rightarrow> OpenOutputStreamArguments \<Rightarrow> (error + StreamWrapper) \<times> Module" where
  "openOutputStream K s in_args =
     (case findPortIdForNewStream s (out_portConfigId in_args) of
        Inl status \<Rightarrow> (Inl status, s)
      | Inr pi \<Rightarrow>
          (case port_flags (ports s ! pi) of
             Tag_input _ \<Rightarrow> (Inl EX_ILLEGAL_ARGUMENT, s)
           | Tag_output outFlags \<Rightarrow>
               if (outFlags AND push_bit (COMPRESS_OFFLOAD K) 1) \<noteq> 0
                  \<and> offloadInfo in_args = None
               then (Inl EX_ILLEGAL_ARGUMENT, s)
               else
                 (case createStreamDescriptor K s (out_portConfigId in_args)
                         (out_bufferSizeFrames in_args) of
                    Inl status \<Rightarrow> (Inl status, s)
                  | Inr _ \<Rightarrow>
                      (let stream = StreamOut (sourceMetadata in_args) (offloadInfo in_args) in
                       (Inr stream,
                        s\<lparr>mStreams := streams_insert (port_id (ports s ! pi))
                              (out_portConfigId in_args) stream (mStreams s)\<rparr>)))))"

section \<open>External devices\<close>

text \<open>
  The loop of \<open>connectExternalDevice\<close> over \<open>mConnectedDevicePorts\<close>: the error it
  returns with, or \<open>None\<close> when it runs to its end. A connected port id that is no port,
  or no device port, is a dereferenced \<open>end()\<close> or a \<open>get\<close> with the wrong tag.
\<close>

fun alreadyConnected :: "AudioPort list \<Rightarrow> AudioDevice \<Rightarrow> int list \<Rightarrow> error option" where
  "alreadyConnected ps device [] = None"
| "alreadyConnected ps device (connectedPortId # rest) =
     (case findById port_id ps connectedPortId of
        None \<Rightarrow> Some Aborted
      | Some i \<Rightarrow>
          (case port_ext (ps ! i) of
             Tag_device d \<Rightarrow>
               if d = device then Some EX_ILLEGAL_STATE else alreadyConnected ps device rest
           | _ \<Rightarrow> Some Aborted))"

text \<open>
  The loop of \<open>connectExternalDevice\<close> over the routes: the routes as updated in place,
  and \<open>newRoutes\<close>.
\<close>

fun connect_routes :: "int \<Rightarrow> int \<Rightarrow> AudioRoute list \<Rightarrow> AudioRoute list \<times> AudioRoute list" where
  "connect_routes templateId connectedId [] = ([], [])"
| "connect_routes templateId connectedId (r # rs) =
     (let (rs', newRoutes) = connect_routes templateId connectedId rs in
      if sinkPortId r = templateId
      then (r # rs',
            \<lparr>sourcePortIds = sourcePortIds r, sinkPortId = connectedId,
             isExclusive = isExclusive r\<rparr> # newRoutes)
      else if templateId \<in> set (sourcePortIds r)
      then (r\<lparr>sourcePortIds := sourcePortIds r @ [connectedId]\<rparr> # rs', newRoutes)
      else (r # rs', newRoutes))"

definition connectExternalDevice :: "Module \<Rightarrow> AudioPort \<Rightarrow> (error + AudioPort) \<times> Module" where
  "connectExternalDevice s in_templateIdAndAdditionalData =
     (let templateId = port_id in_templateIdAndAdditionalData in
      case findById port_id (ports s) templateId of
        None \<Rightarrow> (Inl EX_ILLEGAL_ARGUMENT, s)
      | Some ti \<Rightarrow>
          (case port_ext (ports s ! ti) of
             Tag_device templateDevicePort \<Rightarrow>
               if profiles (ports s ! ti) \<noteq> [] then (Inl EX_ILLEGAL_ARGUMENT, s)
               else if connection templateDevicePort = [] then (Inl EX_ILLEGAL_ARGUMENT, s)
               else
                 (case port_ext in_templateIdAndAdditionalData of
                    Tag_device inputDevicePort \<Rightarrow>
                      (let connectedDevicePort =
                             templateDevicePort\<lparr>address := address inputDevicePort\<rparr>;
                           connectedPort =
                             (ports s ! ti)
                               \<lparr>extraAudioDescriptors :=
                                  extraAudioDescriptors in_templateIdAndAdditionalData,
                                port_ext := Tag_device connectedDevicePort\<rparr>
                       in case alreadyConnected (ports s) connectedDevicePort
                                 (mConnectedDevicePorts s) of
                         Some status \<Rightarrow> (Inl status, s)
                       | None \<Rightarrow>
                           if \<not> simulateDeviceConnections s then (Inl EX_ILLEGAL_STATE, s)
                           else
                             (let newId = nextPortId s + 1;
                                  withId = connectedPort\<lparr>port_id := newId\<rparr>;
                                  withProfiles =
                                    (case map_of (connectedProfiles s) templateId of
                                       Some ps \<Rightarrow> withId\<lparr>profiles := ps\<rparr>
                                     | None \<Rightarrow> withId);
                                  (updated, newRoutes) = connect_routes templateId newId (routes s)
                              in (Inr withProfiles,
                                  s\<lparr>nextPortId := newId,
                                    mConnectedDevicePorts :=
                                      set_insert newId (mConnectedDevicePorts s),
                                    ports := ports s @ [withProfiles],
                                    routes := updated @ newRoutes\<rparr>)))
                  | _ \<Rightarrow> (Inl Aborted, s))
           | _ \<Rightarrow> (Inl EX_ILLEGAL_ARGUMENT, s)))"

text \<open>The predicate of the \<open>find_if\<close> in \<open>disconnectExternalDevice\<close>: a config of the
  port that the client provided or changed.\<close>

definition nonDefaultConfig :: "AudioPortConfig list \<Rightarrow> int \<Rightarrow> AudioPortConfig \<Rightarrow> bool" where
  "nonDefaultConfig initials in_portId config =
     (if portId config = in_portId
      then (case findById cfg_id initials (cfg_id config) of
              None \<Rightarrow> True
            | Some ii \<Rightarrow> config \<noteq> initials ! ii)
      else False)"

fun disconnect_routes :: "int \<Rightarrow> AudioRoute list \<Rightarrow> AudioRoute list" where
  "disconnect_routes in_portId [] = []"
| "disconnect_routes in_portId (r # rs) =
     (if sinkPortId r = in_portId then disconnect_routes in_portId rs
      else r\<lparr>sourcePortIds := erase_if (sourcePortIds r) (\<lambda>src. src = in_portId)\<rparr>
             # disconnect_routes in_portId rs)"

definition disconnectExternalDevice :: "Module \<Rightarrow> int \<Rightarrow> (error + unit) \<times> Module" where
  "disconnectExternalDevice s in_portId =
     (case findById port_id (ports s) in_portId of
        None \<Rightarrow> (Inl EX_ILLEGAL_ARGUMENT, s)
      | Some pi \<Rightarrow>
          (case port_ext (ports s ! pi) of
             Tag_device _ \<Rightarrow>
               if in_portId \<notin> set (mConnectedDevicePorts s) then (Inl EX_ILLEGAL_ARGUMENT, s)
               else if find_pos (nonDefaultConfig (initialConfigs s) in_portId) (portConfigs s)
                         \<noteq> None
               then (Inl EX_ILLEGAL_STATE, s)
               else (Inr (),
                     s\<lparr>ports := erase_at pi (ports s),
                       mConnectedDevicePorts := set_erase in_portId (mConnectedDevicePorts s),
                       routes := disconnect_routes in_portId (routes s)\<rparr>)
           | _ \<Rightarrow> (Inl EX_ILLEGAL_ARGUMENT, s)))"

section \<open>Patches\<close>

text \<open>
  What \<open>setAudioPatch\<close> logs when port config ids are missing: one of its two messages,
  with the ids it prints.
\<close>

datatype missing_ids_log = SourceIdsNotFound "int list" | SinkIdsNotFound "int list"

text \<open>The two \<open>selectByIds\<close> calls of \<open>setAudioPatch\<close>, each followed by its check of
  \<open>missingIds\<close>.\<close>

definition setAudioPatch_select ::
    "AudioPortConfig list \<Rightarrow> AudioPatch
      \<Rightarrow> missing_ids_log + (AudioPortConfig list \<times> AudioPortConfig list)" where
  "setAudioPatch_select configs in_requested =
     (let (sources, missingIds) = selectByIds cfg_id configs (sourcePortConfigIds in_requested) in
      if missingIds \<noteq> [] then Inl (SourceIdsNotFound missingIds)
      else
        (let (sinks, missingIds) = selectByIds cfg_id configs (sinkPortConfigIds in_requested) in
         if missingIds \<noteq> [] then Inl (SinkIdsNotFound missingIds)
         else Inr (sources, sinks)))"

text \<open>
  The body of the loops that fill \<open>allowedSinkPorts\<close>, for the port of one source and one
  route. \<open>allowedSinkPorts[k]\<close> makes an absent entry \<open>false\<close>, so the entry is assigned
  when it is absent or \<open>false\<close>.
\<close>

definition allowedSinkPorts_step :: "int \<Rightarrow> AudioRoute \<Rightarrow> (int \<times> bool) list \<Rightarrow> (int \<times> bool) list" where
  "allowedSinkPorts_step srcPortId r allowed =
     (if srcPortId \<in> set (sourcePortIds r)
      then (case map_of allowed (sinkPortId r) of
              Some True \<Rightarrow> allowed
            | _ \<Rightarrow> map_set (sinkPortId r) (\<not> isExclusive r) allowed)
      else allowed)"

definition allowedSinkPorts :: "AudioRoute list \<Rightarrow> AudioPortConfig list \<Rightarrow> (int \<times> bool) list" where
  "allowedSinkPorts rs sources =
     fold (\<lambda>src. fold (allowedSinkPorts_step (portId src)) rs) sources []"

text \<open>The condition of the loop that validates the requested patch against the index.\<close>

definition exclusiveSinkInUse :: "(int \<times> int) list \<Rightarrow> (int \<times> bool) list \<Rightarrow> bool" where
  "exclusiveSinkInUse index allowed =
     list_ex (\<lambda>entry. \<not> snd entry \<and> mm_count index (fst entry) \<noteq> 0) allowed"

definition setAudioPatch ::
    "ModuleConstants \<Rightarrow> Module \<Rightarrow> AudioPatch \<Rightarrow> (error + AudioPatch) \<times> Module" where
  "setAudioPatch K s in_requested =
     (if sourcePortConfigIds in_requested = [] then (Inl EX_ILLEGAL_ARGUMENT, s)
      else if \<not> all_unique (sourcePortConfigIds in_requested) then (Inl EX_ILLEGAL_ARGUMENT, s)
      else if sinkPortConfigIds in_requested = [] then (Inl EX_ILLEGAL_ARGUMENT, s)
      else if \<not> all_unique (sinkPortConfigIds in_requested) then (Inl EX_ILLEGAL_ARGUMENT, s)
      else case setAudioPatch_select (portConfigs s) in_requested of
        Inl _ \<Rightarrow> (Inl EX_ILLEGAL_ARGUMENT, s)
      | Inr (sources, sinks) \<Rightarrow>
          (let allowed = allowedSinkPorts (routes s) sources in
           if list_ex (\<lambda>sink. map_of allowed (portId sink) = None) sinks
           then (Inl EX_ILLEGAL_ARGUMENT, s)
           else
             (let existing = (if patch_id in_requested \<noteq> 0
                              then findById patch_id (patches s) (patch_id in_requested)
                              else None)
              in if patch_id in_requested \<noteq> 0 \<and> existing = None
                 then (Inl EX_ILLEGAL_ARGUMENT, s)
                 else
                   (let patchesBackup = (case existing of
                                           Some _ \<Rightarrow> Some (mPatches s) | None \<Rightarrow> None);
                        s1 = (case existing of
                                Some i \<Rightarrow> cleanUpPatch s (patch_id (patches s ! i))
                              | None \<Rightarrow> s)
                    in if exclusiveSinkInUse (mPatches s1) allowed
                       then (Inl EX_ILLEGAL_STATE,
                             case patchesBackup of
                               Some backup \<Rightarrow> s1\<lparr>mPatches := backup\<rparr>
                             | None \<Rightarrow> s1)
                       else
                         (let ret = in_requested
                                \<lparr>minimumStreamBufferSizeFrames := kMinimumStreamBufferSizeFrames K,
                                 latenciesMs := replicate (length (sinkPortConfigIds in_requested))
                                                  (kLatencyMs K)\<rparr>
                          in case existing of
                            None \<Rightarrow>
                              (let created = ret\<lparr>patch_id := nextPatchId s1\<rparr>;
                                   s2 = s1\<lparr>nextPatchId := nextPatchId s1 + 1,
                                           patches := patches s1 @ [created]\<rparr>
                               in (Inr created, registerPatch s2 created))
                          | Some i \<Rightarrow>
                              (let s2 = s1\<lparr>patches := (patches s1)[i := ret]\<rparr>
                               in (Inr ret, registerPatch s2 ret)))))))"

definition resetAudioPatch :: "Module \<Rightarrow> int \<Rightarrow> (error + unit) \<times> Module" where
  "resetAudioPatch s in_patchId =
     (case findById patch_id (patches s) in_patchId of
        Some i \<Rightarrow>
          (let s1 = cleanUpPatch s (patch_id (patches s ! i))
           in (Inr (), s1\<lparr>patches := erase_at i (patches s1)\<rparr>))
      | None \<Rightarrow> (Inl EX_ILLEGAL_ARGUMENT, s))"

section \<open>Port config negotiation\<close>

text \<open>
  The state of the negotiation in \<open>setAudioPortConfig\<close>: \<open>out_suggested\<close> and the two
  flags \<open>requestedIsValid\<close> and \<open>requestedIsFullySpecified\<close>.
\<close>

record negotiation =
  out_suggested :: AudioPortConfig
  requestedIsValid :: bool
  requestedIsFullySpecified :: bool

definition negotiate_flags :: "AudioPort \<Rightarrow> AudioPortConfig \<Rightarrow> negotiation \<Rightarrow> negotiation" where
  "negotiate_flags port in_requested n =
     (case cfg_flags in_requested of
        Some requestedFlags \<Rightarrow>
          if requestedFlags \<noteq> port_flags port then n\<lparr>requestedIsValid := False\<rparr> else n
      | None \<Rightarrow> n\<lparr>requestedIsFullySpecified := False\<rparr>)"

definition negotiate_format :: "AudioPort \<Rightarrow> AudioPortConfig \<Rightarrow> negotiation \<Rightarrow> negotiation" where
  "negotiate_format port in_requested n =
     (case format in_requested of
        Some fmt \<Rightarrow>
          (case findAudioProfile port fmt of
             Some _ \<Rightarrow> n\<lparr>out_suggested := (out_suggested n)\<lparr>format := Some fmt\<rparr>\<rparr>
           | None \<Rightarrow> n\<lparr>requestedIsValid := False\<rparr>)
      | None \<Rightarrow> n\<lparr>requestedIsFullySpecified := False\<rparr>)"

definition negotiate_channelMask ::
    "AudioProfile \<Rightarrow> AudioPortConfig \<Rightarrow> negotiation \<Rightarrow> negotiation" where
  "negotiate_channelMask portProfile in_requested n =
     (case channelMask in_requested of
        Some layout \<Rightarrow>
          if layout \<in> set (channelMasks portProfile)
          then n\<lparr>out_suggested := (out_suggested n)\<lparr>channelMask := Some layout\<rparr>\<rparr>
          else n\<lparr>requestedIsValid := False\<rparr>
      | None \<Rightarrow> n\<lparr>requestedIsFullySpecified := False\<rparr>)"

definition negotiate_sampleRate ::
    "AudioProfile \<Rightarrow> AudioPortConfig \<Rightarrow> negotiation \<Rightarrow> negotiation" where
  "negotiate_sampleRate portProfile in_requested n =
     (case sampleRate in_requested of
        Some rate \<Rightarrow>
          if rate \<in> set (sampleRates portProfile)
          then n\<lparr>out_suggested := (out_suggested n)\<lparr>sampleRate := Some rate\<rparr>\<rparr>
          else n\<lparr>requestedIsValid := False\<rparr>
      | None \<Rightarrow> n\<lparr>requestedIsFullySpecified := False\<rparr>)"

definition negotiate_gain :: "AudioPortConfig \<Rightarrow> negotiation \<Rightarrow> negotiation" where
  "negotiate_gain in_requested n =
     (case gain in_requested of
        Some g \<Rightarrow> n\<lparr>out_suggested := (out_suggested n)\<lparr>gain := Some g\<rparr>\<rparr>
      | None \<Rightarrow> n)"

text \<open>
  The last step of \<open>setAudioPortConfig\<close>: create, update or leave alone. \<open>existing\<close> is
  the position of the existing config, \<open>None\<close> for \<open>configs.end()\<close>.
\<close>

definition setAudioPortConfig_decide ::
    "Module \<Rightarrow> nat option \<Rightarrow> negotiation \<Rightarrow> (error + AudioPortConfig \<times> bool) \<times> Module" where
  "setAudioPortConfig_decide s existing n =
     (case existing of
        None \<Rightarrow>
          if requestedIsValid n \<and> requestedIsFullySpecified n
          then (let created = (out_suggested n)\<lparr>cfg_id := nextPortId s\<rparr>
                in (Inr (created, True),
                    s\<lparr>nextPortId := nextPortId s + 1,
                      portConfigs := portConfigs s @ [created]\<rparr>))
          else (Inr (out_suggested n, False), s)
      | Some i \<Rightarrow>
          if requestedIsValid n
          then (Inr (out_suggested n, True),
                s\<lparr>portConfigs := (portConfigs s)[i := out_suggested n]\<rparr>)
          else (Inr (out_suggested n, False), s))"

definition setAudioPortConfig ::
    "Module \<Rightarrow> AudioPortConfig \<Rightarrow> (error + AudioPortConfig \<times> bool) \<times> Module" where
  "setAudioPortConfig s in_requested =
     (let existing = (if cfg_id in_requested \<noteq> 0
                      then findById cfg_id (portConfigs s) (cfg_id in_requested)
                      else None)
      in if cfg_id in_requested \<noteq> 0 \<and> existing = None then (Inl EX_ILLEGAL_ARGUMENT, s)
         else
           (let pId = (case existing of
                         Some i \<Rightarrow> portId (portConfigs s ! i)
                       | None \<Rightarrow> portId in_requested)
            in if pId = 0 then (Inl EX_ILLEGAL_ARGUMENT, s)
               else case findById port_id (ports s) pId of
                 None \<Rightarrow> (Inl EX_ILLEGAL_ARGUMENT, s)
               | Some pi \<Rightarrow>
                   (case (case existing of
                            Some i \<Rightarrow> Some (portConfigs s ! i)
                          | None \<Rightarrow> generateDefaultPortConfig (ports s ! pi)) of
                      None \<Rightarrow> (Inl EX_ILLEGAL_ARGUMENT, s)
                    | Some seed \<Rightarrow>
                        (let n0 = \<lparr>out_suggested = seed, requestedIsValid = True,
                                   requestedIsFullySpecified = True\<rparr>;
                             n2 = negotiate_format (ports s ! pi) in_requested
                                    (negotiate_flags (ports s ! pi) in_requested n0)
                         in case format (out_suggested n2) of
                           None \<Rightarrow> (Inl Aborted, s)
                         | Some fmt \<Rightarrow>
                             (case findAudioProfile (ports s ! pi) fmt of
                                None \<Rightarrow> (Inl EX_ILLEGAL_ARGUMENT, s)
                              | Some portProfile \<Rightarrow>
                                  setAudioPortConfig_decide s existing
                                    (negotiate_gain in_requested
                                      (negotiate_sampleRate portProfile in_requested
                                        (negotiate_channelMask portProfile in_requested n2))))))))"

section \<open>Notions used in the statements\<close>

text \<open>The requested ids that no port config of the store has.\<close>

definition missing_of :: "AudioPortConfig list \<Rightarrow> int list \<Rightarrow> int list" where
  "missing_of configs ids = filter (\<lambda>i. findById cfg_id configs i = None) ids"

text \<open>
  The routes of the store that lead from the port of one of the source configs to the
  sink port \<open>k\<close>: the routes available to a patch from these sources to that sink.
\<close>

definition routes_to :: "AudioRoute list \<Rightarrow> AudioPortConfig list \<Rightarrow> int \<Rightarrow> AudioRoute list" where
  "routes_to rs sources k =
     filter (\<lambda>r. sinkPortId r = k \<and> list_ex (\<lambda>src. portId src \<in> set (sourcePortIds r)) sources) rs"

text \<open>
  The keys under which the index holds a patch id, and the keys a patch stands for: its
  source and sink port config ids and the ids of the ports that own them. The index
  mirrors the patch list when the two agree for every patch of the store.
\<close>

definition index_keys :: "(int \<times> int) list \<Rightarrow> int \<Rightarrow> int list" where
  "index_keys index patchId = map fst (filter (\<lambda>entry. snd entry = patchId) index)"

definition owning_ports :: "AudioPortConfig list \<Rightarrow> int list \<Rightarrow> int list" where
  "owning_ports configs ids =
     concat (map (\<lambda>i. case findById cfg_id configs i of
                          None \<Rightarrow> [] | Some n \<Rightarrow> [portId (configs ! n)]) ids)"

definition patch_keys :: "AudioPortConfig list \<Rightarrow> AudioPatch \<Rightarrow> int list" where
  "patch_keys configs patch =
     (sourcePortConfigIds patch @ sinkPortConfigIds patch)
     @ owning_ports configs (sourcePortConfigIds patch @ sinkPortConfigIds patch)"

definition index_mirrors_patches :: "Module \<Rightarrow> bool" where
  "index_mirrors_patches s =
     list_all (\<lambda>patch. set (index_keys (mPatches s) (patch_id patch))
                        = set (patch_keys (portConfigs s) patch)) (patches s)"

text \<open>
  The discipline of patch ids: the patches of the store have distinct ids, handed out by
  \<open>nextPatchId\<close>, the index names no patch id that is still to be handed out, and the
  index mirrors the patch list.
\<close>

definition patch_store_consistent :: "Module \<Rightarrow> bool" where
  "patch_store_consistent s =
     (distinct (map patch_id (patches s))
      \<and> list_all (\<lambda>patch. patch_id patch < nextPatchId s) (patches s)
      \<and> list_all (\<lambda>entry. snd entry < nextPatchId s) (mPatches s)
      \<and> index_mirrors_patches s)"

text \<open>
  The counter discipline of port ids: every port id that the store mentions, as the id
  of a port, as the owner of a port config or in a route, is at most \<open>nextPortId\<close>.
\<close>

definition route_bounded :: "int \<Rightarrow> AudioRoute \<Rightarrow> bool" where
  "route_bounded n r = (sinkPortId r \<le> n \<and> list_all (\<lambda>i. i \<le> n) (sourcePortIds r))"

definition port_ids_within_counter :: "Module \<Rightarrow> bool" where
  "port_ids_within_counter s =
     (list_all (\<lambda>p. port_id p \<le> nextPortId s) (ports s)
      \<and> list_all (\<lambda>c. portId c \<le> nextPortId s) (portConfigs s)
      \<and> list_all (route_bounded (nextPortId s)) (routes s))"

text \<open>
  The decision of \<open>setAudioPortConfig\<close> in the words of the spec. A supplied field is
  valid when the flags equal the flags of the port, the format is the format of one of
  the profiles of the port, and the channel mask and the sample rate are among those of
  the matching profile; a request is fully specified when it supplies all four.
\<close>

definition suppliedFieldsValid :: "AudioPort \<Rightarrow> AudioProfile \<Rightarrow> AudioPortConfig \<Rightarrow> bool" where
  "suppliedFieldsValid port matching req =
     ((case cfg_flags req of None \<Rightarrow> True | Some f \<Rightarrow> f = port_flags port)
      \<and> (case format req of
            None \<Rightarrow> True
          | Some fmt \<Rightarrow> list_ex (\<lambda>profile. prof_format profile = fmt) (profiles port))
      \<and> (case channelMask req of None \<Rightarrow> True | Some layout \<Rightarrow> layout \<in> set (channelMasks matching))
      \<and> (case sampleRate req of None \<Rightarrow> True | Some rate \<Rightarrow> rate \<in> set (sampleRates matching)))"

definition fullySpecified :: "AudioPortConfig \<Rightarrow> bool" where
  "fullySpecified req =
     (cfg_flags req \<noteq> None \<and> format req \<noteq> None \<and> channelMask req \<noteq> None
      \<and> sampleRate req \<noteq> None)"

text \<open>The format of the suggestion: the requested one when the port supports it, the
  format of the seed (the existing config, or the default config of the port) otherwise.\<close>

definition suggestedFormat ::
    "AudioPort \<Rightarrow> AudioPortConfig \<Rightarrow> AudioPortConfig \<Rightarrow> AudioFormatDescription option" where
  "suggestedFormat port seed req =
     (case format req of
        None \<Rightarrow> format seed
      | Some fmt \<Rightarrow>
          if list_ex (\<lambda>profile. prof_format profile = fmt) (profiles port)
          then Some fmt else format seed)"

text \<open>
  The suggestion in the words of the spec: the seed, with every supplied field that is
  valid copied into it. The format is \<open>suggestedFormat\<close>; a supplied channel mask or
  sample rate is copied when the matching profile has it; a supplied gain is always
  copied. The id, the owning port, the flags and the extension stay those of the seed.
\<close>

definition suggestedConfig ::
    "AudioPort \<Rightarrow> AudioProfile \<Rightarrow> AudioPortConfig \<Rightarrow> AudioPortConfig \<Rightarrow> AudioPortConfig" where
  "suggestedConfig port matching seed req =
     \<lparr>cfg_id = cfg_id seed,
      portId = portId seed,
      sampleRate = (case sampleRate req of
                      None \<Rightarrow> sampleRate seed
                    | Some rate \<Rightarrow>
                        if rate \<in> set (sampleRates matching) then Some rate
                        else sampleRate seed),
      channelMask = (case channelMask req of
                       None \<Rightarrow> channelMask seed
                     | Some layout \<Rightarrow>
                         if layout \<in> set (channelMasks matching) then Some layout
                         else channelMask seed),
      format = suggestedFormat port seed req,
      gain = (case gain req of None \<Rightarrow> gain seed | Some g \<Rightarrow> Some g),
      cfg_flags = cfg_flags seed,
      cfg_ext = cfg_ext seed\<rparr>"

section \<open>Example configurations\<close>

text \<open>
  Concrete modules and requests, on which the theorems below are instantiated. The
  constants are those of the default implementation: a minimum of 16 frames, a ceiling
  of \<open>2 ^ 30\<close> bytes, 10 ms of latency, and bit 4 for \<open>COMPRESS_OFFLOAD\<close>.
\<close>

definition demo_constants :: ModuleConstants where
  "demo_constants = \<lparr>kMinimumStreamBufferSizeFrames = 16,
      kMaximumStreamBufferSizeBytes = 2 ^ 30, kLatencyMs = 10, COMPRESS_OFFLOAD = 4\<rparr>"

definition pcm16 :: AudioFormatDescription where
  "pcm16 = \<lparr>fmt_type = PCM, pcm = INT_16_BIT, encoding = []\<rparr>"

definition stereo :: AudioChannelLayout where
  "stereo = Tag_layoutMask 3"

definition demo_profile :: AudioProfile where
  "demo_profile = \<lparr>prof_format = pcm16, channelMasks = [stereo], sampleRates = [48000]\<rparr>"

definition mix_port :: "int \<Rightarrow> AudioPort" where
  "mix_port i = \<lparr>port_id = i, profiles = [demo_profile], port_flags = Tag_output 0,
      extraAudioDescriptors = [], port_ext = Tag_mix \<lparr>maxOpenStreamCount = 0\<rparr>\<rparr>"

definition device_port :: "int \<Rightarrow> string \<Rightarrow> AudioProfile list \<Rightarrow> AudioPort" where
  "device_port i conn ps = \<lparr>port_id = i, profiles = ps, port_flags = Tag_output 0,
      extraAudioDescriptors = [],
      port_ext = Tag_device \<lparr>dev_type = 2, connection = conn, address = []\<rparr>\<rparr>"

text \<open>A port config, or a fully specified request for one: 48 kHz stereo 16-bit PCM.\<close>

definition config_of :: "int \<Rightarrow> int \<Rightarrow> AudioPortConfig" where
  "config_of i p = \<lparr>cfg_id = i, portId = p, sampleRate = Some 48000, channelMask = Some stereo,
      format = Some pcm16, gain = None, cfg_flags = Some (Tag_output 0),
      cfg_ext = Tag_unspecified\<rparr>"

definition patch_request :: "int \<Rightarrow> int list \<Rightarrow> int list \<Rightarrow> AudioPatch" where
  "patch_request i srcs snks = \<lparr>patch_id = i, sourcePortConfigIds = srcs,
      sinkPortConfigIds = snks, minimumStreamBufferSizeFrames = 0, latenciesMs = []\<rparr>"

definition empty_module :: Module where
  "empty_module = \<lparr>ports = [], portConfigs = [], initialConfigs = [], connectedProfiles = [],
      routes = [], patches = [], nextPortId = 1, nextPatchId = 1, mPatches = [], mStreams = [],
      mConnectedDevicePorts = [], simulateDeviceConnections = True\<rparr>"

text \<open>A store with one port config, for stream descriptors.\<close>

definition stream_demo :: Module where
  "stream_demo = empty_module\<lparr>portConfigs := [config_of 5 1]\<rparr>"

text \<open>An output mix port with the \<open>COMPRESS_OFFLOAD\<close> flag, one config of it, and a
  request to open a stream on that config without offload info.\<close>

definition offload_demo :: Module where
  "offload_demo = empty_module
     \<lparr>ports := [(mix_port 1)\<lparr>port_flags := Tag_output 16\<rparr>],
      portConfigs := [(config_of 7 1)\<lparr>cfg_flags := Some (Tag_output 16)\<rparr>],
      nextPortId := 8\<rparr>"

definition offload_args :: OpenOutputStreamArguments where
  "offload_args = \<lparr>out_portConfigId = 7, sourceMetadata = ''music'', offloadInfo = None,
                    out_bufferSizeFrames = 256\<rparr>"

text \<open>A patch request whose source id and sink id are both unknown to \<open>empty_module\<close>.\<close>

definition both_missing :: AudioPatch where
  "both_missing = patch_request 0 [1] [2]"

text \<open>
  Two mix ports (1 and 3) routed to two device ports: to port 2 by an exclusive route,
  to port 4 by a shared one; and the stores reached from there by \<open>setAudioPatch\<close>:
  \<open>one_patch\<close> with a patch from config 30 to config 40, then either \<open>two_patches\<close> with
  a second patch from config 10 to config 20, or \<open>shared_sink\<close> with a second patch from
  config 10 to the configs 20 and 40.
\<close>

definition routing_demo :: Module where
  "routing_demo = empty_module
     \<lparr>ports := [mix_port 1, device_port 2 [] [demo_profile], mix_port 3,
                device_port 4 [] [demo_profile]],
      portConfigs := [config_of 10 1, config_of 20 2, config_of 30 3, config_of 40 4],
      routes := [\<lparr>sourcePortIds = [1, 3], sinkPortId = 2, isExclusive = True\<rparr>,
                 \<lparr>sourcePortIds = [1, 3], sinkPortId = 4, isExclusive = False\<rparr>],
      nextPortId := 41\<rparr>"

definition one_patch :: Module where
  "one_patch = snd (setAudioPatch demo_constants routing_demo (patch_request 0 [30] [40]))"

definition two_patches :: Module where
  "two_patches = snd (setAudioPatch demo_constants one_patch (patch_request 0 [10] [20]))"

definition shared_sink :: Module where
  "shared_sink = snd (setAudioPatch demo_constants one_patch (patch_request 0 [10] [20, 40]))"

text \<open>
  A mix port and the template of a USB device port, whose profiles come with the
  connection; the request that connects a device to it; and the stores reached by the
  connect (\<open>usb_connected\<close>), by a port config for the connected port after it
  (\<open>usb_configured\<close>), and by a port config for the mix port alone (\<open>configured_demo\<close>).
\<close>

definition usb_demo :: Module where
  "usb_demo = empty_module
     \<lparr>ports := [mix_port 1, device_port 2 ''usb'' []],
      connectedProfiles := [(2, [demo_profile])],
      routes := [\<lparr>sourcePortIds = [1], sinkPortId = 2, isExclusive = False\<rparr>],
      nextPortId := 3\<rparr>"

definition usb_request :: AudioPort where
  "usb_request = (device_port 2 ''usb'' [])
     \<lparr>port_ext := Tag_device \<lparr>dev_type = 2, connection = ''usb'', address = ''card=1''\<rparr>\<rparr>"

definition usb_connected :: Module where
  "usb_connected = snd (connectExternalDevice usb_demo usb_request)"

definition usb_configured :: Module where
  "usb_configured = snd (setAudioPortConfig usb_connected (config_of 0 4))"

definition configured_demo :: Module where
  "configured_demo = snd (setAudioPortConfig usb_demo (config_of 0 1))"

text \<open>Two partial requests for config 3 of \<open>configured_demo\<close>: one that only sets the
  gain, one that also asks for a sample rate the port does not have.\<close>

definition gain_request :: AudioPortConfig where
  "gain_request = \<lparr>cfg_id = 3, portId = 0, sampleRate = None, channelMask = None,
      format = None, gain = Some 5, cfg_flags = None, cfg_ext = Tag_unspecified\<rparr>"

definition rate_request :: AudioPortConfig where
  "rate_request = gain_request\<lparr>sampleRate := Some 44100\<rparr>"

section \<open>Facts about the helpers\<close>

lemma find_pos_Some:
  "find_pos P xs = Some i \<Longrightarrow> i < length xs \<and> P (xs ! i) \<and> (\<forall>j<i. \<not> P (xs ! j))"
proof (induction xs arbitrary: i)
  case Nil
  then show ?case by simp
next
  case (Cons x xs)
  show ?case
  proof (cases "P x")
    case True
    with Cons.prems show ?thesis by simp
  next
    case False
    with Cons.prems obtain k where k: "find_pos P xs = Some k" and i: "i = Suc k"
      by auto
    from Cons.IH [OF k] False i show ?thesis
      by (auto simp: nth_Cons split: nat.splits)
  qed
qed

lemma find_pos_None: "find_pos P xs = None \<longleftrightarrow> (\<forall>x\<in>set xs. \<not> P x)"
  by (induction xs) auto

lemma find_pos_append_fresh:
  "\<forall>x\<in>set xs. \<not> P x \<Longrightarrow> P y \<Longrightarrow> find_pos P (xs @ y # ys) = Some (length xs)"
  by (induction xs) auto

lemma find_pos_append_old:
  "find_pos P xs = Some i \<Longrightarrow> find_pos P (xs @ ys) = Some i"
  by (induction xs arbitrary: i) auto

lemma builtin_popcount_card: "builtin_popcount w = card {n. bit w n}"
proof -
  have "{n. bit w n} \<inter> set [0..<32] = {n. bit w n}"
    using bit_imp_le_length [of w] by auto
  then show ?thesis
    by (simp add: builtin_popcount_def distinct_length_filter)
qed

lemma findById_None: "findById getId v i = None \<longleftrightarrow> i \<notin> getId ` set v"
  by (auto simp: findById_def find_pos_None)

lemma findById_Some:
  "findById getId v i = Some n \<Longrightarrow> n < length v \<and> getId (v ! n) = i"
  using find_pos_Some [of "\<lambda>e. getId e = i" v n] by (simp add: findById_def)

lemma erase_at_subset: "set (erase_at n xs) \<subseteq> set xs"
  by (auto simp: erase_at_def dest: in_set_takeD in_set_dropD)

lemma erase_at_appended: "erase_at (length xs) (xs @ [x]) = xs"
  by (simp add: erase_at_def)

lemma map_of_map_set: "map_of (map_set k v m) = (map_of m)(k \<mapsto> v)"
  by (induction m) (auto simp: fun_eq_iff)

lemma mm_count_nonzero: "0 < mm_count m k \<longleftrightarrow> k \<in> fst ` set m"
  by (auto simp: mm_count_def filter_empty_conv)

lemma set_mm_insert: "set (mm_insert entry m) = insert entry (set m)"
proof -
  have "set (takeWhile (\<lambda>e. fst e \<le> fst entry) m) \<union> set (dropWhile (\<lambda>e. fst e \<le> fst entry) m)
      = set m"
    by (metis set_append takeWhile_dropWhile_id)
  then show ?thesis by (auto simp: mm_insert_def)
qed

section \<open>Frame size computation\<close>

text \<open>
  Claim C7. For a PCM format the frame size is the byte size of the PCM subtype (1 for
  \<open>UINT_8_BIT\<close>, 2 for \<open>INT_16_BIT\<close>, 3 for \<open>INT_24_BIT\<close>, 4 for \<open>INT_32_BIT\<close>,
  \<open>FIXED_Q_8_24\<close> and \<open>FLOAT_32_BIT\<close>) times the number of bits set in the index, layout
  or voice mask, a layout tagged \<open>none\<close> or \<open>invalid\<close> counting 0 channels; for every
  other format it is 1 whatever the layout.
\<close>

theorem getFrameSizeInBytes_spec:
  "getFrameSizeInBytes fmt layout =
     (if fmt_type fmt = PCM
      then (case pcm fmt of
              UINT_8_BIT \<Rightarrow> 1 | INT_16_BIT \<Rightarrow> 2 | INT_24_BIT \<Rightarrow> 3
            | INT_32_BIT \<Rightarrow> 4 | FIXED_Q_8_24 \<Rightarrow> 4 | FLOAT_32_BIT \<Rightarrow> 4)
         * (case layout of
              Tag_none _ \<Rightarrow> 0 | Tag_invalid _ \<Rightarrow> 0
            | Tag_indexMask m \<Rightarrow> card {n. bit m n}
            | Tag_layoutMask m \<Rightarrow> card {n. bit m n}
            | Tag_voiceMask m \<Rightarrow> card {n. bit m n})
      else 1)"
  by (cases "pcm fmt"; cases layout)
     (simp_all add: getFrameSizeInBytes_def builtin_popcount_card)

section \<open>Stream descriptor creation\<close>

lemma cpp_div_nonneg: "0 \<le> a \<Longrightarrow> 0 < b \<Longrightarrow> cpp_div a b = a div b"
  by (cases "a = 0") (simp_all add: cpp_div_def)

lemma to_size_t_small: "0 \<le> x \<Longrightarrow> x < 2 ^ 63 \<Longrightarrow> int (to_size_t x) = x"
  by (simp add: to_size_t_def)

lemma div_below_bound: "0 \<le> (m::int) \<Longrightarrow> 0 < b \<Longrightarrow> m < 2 ^ 63 \<Longrightarrow> m div b < 2 ^ 63"
  using int_div_le_self [of m b] by (cases "m = 0") auto

lemma too_large_iff:
  assumes "0 \<le> m" "m < 2 ^ 63" "0 < b"
  shows "(fs > to_size_t (cpp_div m b)) \<longleftrightarrow> (int fs > m div b)"
proof -
  have q: "0 \<le> m div b" "m div b < 2 ^ 63"
    using assms div_below_bound [of m b] by (simp_all add: pos_imp_zdiv_nonneg_iff)
  have "int (to_size_t (cpp_div m b)) = m div b"
    using assms q by (simp add: cpp_div_nonneg to_size_t_small)
  then show ?thesis by linarith
qed

lemma reject_next:
  assumes "(0::int) \<le> m"
  shows "m div (m div 4 + 1) < 4"
proof -
  define q where "q = m div 4"
  have q0: "0 \<le> q" using assms by (simp add: q_def pos_imp_zdiv_nonneg_iff)
  have lt: "m < 4 * (q + 1)" unfolding q_def by presburger
  show ?thesis
  proof (rule ccontr)
    assume "\<not> m div (m div 4 + 1) < 4"
    then have ge: "4 \<le> m div (q + 1)" by (simp add: q_def)
    have "(q + 1) * 4 \<le> (q + 1) * (m div (q + 1))"
      using ge q0 by (intro mult_left_mono) simp_all
    moreover have "0 \<le> m mod (q + 1)"
      using q0 by (intro pos_mod_sign) simp
    moreover have "(q + 1) * (m div (q + 1)) + m mod (q + 1) = m"
      by (rule mult_div_mod_eq)
    ultimately show False using lt by linarith
  qed
qed

lemma accept_exact:
  assumes "(0::int) < m div 4"
  shows "4 \<le> m div (m div 4)"
proof -
  define q where "q = m div 4"
  have "4 * q \<le> m" unfolding q_def by presburger
  then have "(4 * q) div q \<le> m div q" using assms by (intro zdiv_mono1) (simp_all add: q_def)
  then show ?thesis using assms by (simp add: q_def)
qed

lemma createStreamDescriptor_cases:
  assumes "findById cfg_id (portConfigs s) pc = Some i"
    and "format (portConfigs s ! i) = Some fmt"
    and "channelMask (portConfigs s ! i) = Some layout"
    and "0 \<le> kMaximumStreamBufferSizeBytes K"
    and "kMaximumStreamBufferSizeBytes K < 2 ^ 63"
  shows "createStreamDescriptor K s pc b =
           (if b \<le> 0 \<or> b < kMinimumStreamBufferSizeFrames K
               \<or> getFrameSizeInBytes fmt layout = 0
               \<or> int (getFrameSizeInBytes fmt layout) > kMaximumStreamBufferSizeBytes K div b
            then Inl EX_ILLEGAL_ARGUMENT else Inr ())"
  using assms by (auto simp: createStreamDescriptor_def too_large_iff Let_def)

text \<open>
  Claim C6. For a port config id that is in the store (with its format and channel mask
  set, as \<open>createStreamDescriptor\<close> assumes of its caller) and a maximum byte ceiling
  that is a non-negative 64-bit value, \<open>createStreamDescriptor\<close> fails with
  \<open>EX_ILLEGAL_ARGUMENT\<close> exactly when the buffer size is not positive, or below the
  minimum, or the frame size is 0, or the frame size exceeds the ceiling divided by the
  buffer size, and it succeeds otherwise. With a frame size of 4, a buffer of
  \<open>maxBytes / 4 + 1\<close> frames is refused, and one of \<open>maxBytes / 4\<close> frames is accepted
  (when that many frames are positive and not below the minimum).
\<close>

theorem createStreamDescriptor_rejects:
  assumes "findById cfg_id (portConfigs s) pc = Some i"
    and "format (portConfigs s ! i) = Some fmt"
    and "channelMask (portConfigs s ! i) = Some layout"
    and "0 \<le> kMaximumStreamBufferSizeBytes K"
    and "kMaximumStreamBufferSizeBytes K < 2 ^ 63"
  shows "(createStreamDescriptor K s pc b = Inl EX_ILLEGAL_ARGUMENT
            \<longleftrightarrow> (b \<le> 0 \<or> b < kMinimumStreamBufferSizeFrames K
                 \<or> getFrameSizeInBytes fmt layout = 0
                 \<or> int (getFrameSizeInBytes fmt layout) > kMaximumStreamBufferSizeBytes K div b))
       \<and> (createStreamDescriptor K s pc b = Inr ()
            \<longleftrightarrow> createStreamDescriptor K s pc b \<noteq> Inl EX_ILLEGAL_ARGUMENT)
       \<and> (getFrameSizeInBytes fmt layout = 4 \<longrightarrow>
            createStreamDescriptor K s pc (kMaximumStreamBufferSizeBytes K div 4 + 1)
              = Inl EX_ILLEGAL_ARGUMENT
            \<and> (0 < kMaximumStreamBufferSizeBytes K div 4
                 \<and> kMinimumStreamBufferSizeFrames K \<le> kMaximumStreamBufferSizeBytes K div 4
               \<longrightarrow> createStreamDescriptor K s pc (kMaximumStreamBufferSizeBytes K div 4) = Inr ()))"
proof -
  note c = createStreamDescriptor_cases [OF assms]
  have a: "createStreamDescriptor K s pc b = Inl EX_ILLEGAL_ARGUMENT
            \<longleftrightarrow> (b \<le> 0 \<or> b < kMinimumStreamBufferSizeFrames K
                 \<or> getFrameSizeInBytes fmt layout = 0
                 \<or> int (getFrameSizeInBytes fmt layout) > kMaximumStreamBufferSizeBytes K div b)"
    by (simp add: c)
  have b: "createStreamDescriptor K s pc b = Inr ()
            \<longleftrightarrow> createStreamDescriptor K s pc b \<noteq> Inl EX_ILLEGAL_ARGUMENT"
    by (simp add: c)
  have r: "getFrameSizeInBytes fmt layout = 4 \<Longrightarrow>
            createStreamDescriptor K s pc (kMaximumStreamBufferSizeBytes K div 4 + 1)
              = Inl EX_ILLEGAL_ARGUMENT"
    using reject_next [OF assms(4)] by (simp add: c)
  have ok: "getFrameSizeInBytes fmt layout = 4 \<Longrightarrow> 0 < kMaximumStreamBufferSizeBytes K div 4
      \<Longrightarrow> kMinimumStreamBufferSizeFrames K \<le> kMaximumStreamBufferSizeBytes K div 4
      \<Longrightarrow> createStreamDescriptor K s pc (kMaximumStreamBufferSizeBytes K div 4) = Inr ()"
    using accept_exact [of "kMaximumStreamBufferSizeBytes K"] by (simp add: c)
  from a b r ok show ?thesis by blast
qed

lemma stereo_count: "getFrameSizeInBytes pcm16 stereo = 4"
  by (simp add: getFrameSizeInBytes_def pcm16_def stereo_def builtin_popcount_def upt_rec)

theorem createStreamDescriptor_rejects_witness:
  "createStreamDescriptor demo_constants stream_demo 5 (2 ^ 28 + 1) = Inl EX_ILLEGAL_ARGUMENT
   \<and> createStreamDescriptor demo_constants stream_demo 5 (2 ^ 28) = Inr ()
   \<and> createStreamDescriptor demo_constants stream_demo 5 0 = Inl EX_ILLEGAL_ARGUMENT
   \<and> createStreamDescriptor demo_constants stream_demo 5 15 = Inl EX_ILLEGAL_ARGUMENT"
proof -
  have f: "findById cfg_id (portConfigs stream_demo) 5 = Some 0"
    by (simp add: stream_demo_def empty_module_def config_of_def findById_def)
  have fmt: "format (portConfigs stream_demo ! 0) = Some pcm16"
    and lay: "channelMask (portConfigs stream_demo ! 0) = Some stereo"
    by (simp_all add: stream_demo_def empty_module_def config_of_def)
  have lo: "0 \<le> kMaximumStreamBufferSizeBytes demo_constants"
    and hi: "kMaximumStreamBufferSizeBytes demo_constants < 2 ^ 63"
    by (simp_all add: demo_constants_def)
  note t = createStreamDescriptor_rejects [OF f fmt lay lo hi]
  have k: "kMaximumStreamBufferSizeBytes demo_constants div 4 = 2 ^ 28"
    "kMinimumStreamBufferSizeFrames demo_constants = 16"
    by (simp_all add: demo_constants_def)
  show ?thesis
    using t [of 0] t [of 15] t [of 1] stereo_count by (simp add: k)
qed

section \<open>Opening an output stream\<close>

lemma findPortIdForNewStream_mix:
  "findPortIdForNewStream s pc = Inr pi \<Longrightarrow> \<exists>m. port_ext (ports s ! pi) = Tag_mix m"
  by (auto simp: findPortIdForNewStream_def Let_def
           split: option.splits if_splits AudioPortExt.splits)

text \<open>
  Claim C10. When the port config of an \<open>openOutputStream\<close> request resolves (through
  \<open>findPortIdForNewStream\<close>) to a port, which is then a mix port, and that port is an
  output port whose flags have the \<open>COMPRESS_OFFLOAD\<close> bit set, a request without offload
  info fails with \<open>EX_ILLEGAL_ARGUMENT\<close> and the module, its stream registry included, is
  as before the call.
\<close>

theorem openOutputStream_offload_needs_info:
  assumes "findPortIdForNewStream s (out_portConfigId in_args) = Inr pi"
    and "port_flags (ports s ! pi) = Tag_output outFlags"
    and "bit outFlags (COMPRESS_OFFLOAD K)"
    and "offloadInfo in_args = None"
  shows "openOutputStream K s in_args = (Inl EX_ILLEGAL_ARGUMENT, s)
         \<and> (\<exists>m. port_ext (ports s ! pi) = Tag_mix m)"
proof -
  from assms(3) have "outFlags AND push_bit (COMPRESS_OFFLOAD K) 1 \<noteq> 0"
    using bit_iff_and_push_bit_not_eq_0 [of outFlags "COMPRESS_OFFLOAD K"] by blast
  with assms(1,2,4) have "openOutputStream K s in_args = (Inl EX_ILLEGAL_ARGUMENT, s)"
    by (simp add: openOutputStream_def)
  with findPortIdForNewStream_mix [OF assms(1)] show ?thesis by simp
qed

theorem openOutputStream_offload_needs_info_witness:
  "openOutputStream demo_constants offload_demo offload_args
     = (Inl EX_ILLEGAL_ARGUMENT, offload_demo)
   \<and> openOutputStream demo_constants offload_demo (offload_args\<lparr>offloadInfo := Some ''mp3''\<rparr>)
     \<noteq> (Inl EX_ILLEGAL_ARGUMENT, offload_demo)"
proof -
  have r: "findPortIdForNewStream offload_demo (out_portConfigId offload_args) = Inr 0"
    by (simp add: findPortIdForNewStream_def offload_demo_def offload_args_def
          empty_module_def mix_port_def config_of_def findById_def mm_count_def)
  have f: "port_flags (ports offload_demo ! 0) = Tag_output 16"
    by (simp add: offload_demo_def empty_module_def mix_port_def)
  have b: "bit (16 :: 32 word) (COMPRESS_OFFLOAD demo_constants)"
    by (simp add: demo_constants_def)
  have n: "offloadInfo offload_args = None"
    by (simp add: offload_args_def)
  have "openOutputStream demo_constants offload_demo (offload_args\<lparr>offloadInfo := Some ''mp3''\<rparr>)
     \<noteq> (Inl EX_ILLEGAL_ARGUMENT, offload_demo)"
    using r f by (simp add: openOutputStream_def offload_args_def createStreamDescriptor_def
      findById_def offload_demo_def empty_module_def config_of_def demo_constants_def Let_def
      stereo_count cpp_div_def to_size_t_def)
  with openOutputStream_offload_needs_info [OF r f b n] show ?thesis by simp
qed

section \<open>Missing port config ids of a patch request\<close>

lemma selectByIds_loop_rest:
  "snd (selectByIds_loop getId v idsSet) = filter (\<lambda>i. i \<notin> getId ` set v) idsSet"
proof (induction v arbitrary: idsSet)
  case Nil
  then show ?case by simp
next
  case (Cons e v)
  show ?case
  proof (cases "getId e \<in> set idsSet")
    case True
    then have "snd (selectByIds_loop getId (e # v) idsSet)
        = snd (selectByIds_loop getId v (removeAll (getId e) idsSet))"
      by (simp add: case_prod_unfold Let_def)
    also have "\<dots> = filter (\<lambda>i. i \<notin> getId ` set v) (removeAll (getId e) idsSet)"
      by (rule Cons.IH)
    also have "\<dots> = filter (\<lambda>i. i \<notin> getId ` set (e # v)) idsSet"
      by (induction idsSet) auto
    finally show ?thesis .
  next
    case False
    then have "snd (selectByIds_loop getId (e # v) idsSet)
        = filter (\<lambda>i. i \<notin> getId ` set v) idsSet"
      by (simp add: Cons.IH)
    also have "\<dots> = filter (\<lambda>i. i \<notin> getId ` set (e # v)) idsSet"
      using False by (induction idsSet) auto
    finally show ?thesis .
  qed
qed

lemma selectByIds_missing:
  "set (snd (selectByIds cfg_id configs ids)) = set (missing_of configs ids)"
  by (auto simp: selectByIds_def selectByIds_loop_rest missing_of_def findById_None)

lemma setAudioPatch_select_sources:
  assumes "missing_of configs (sourcePortConfigIds req) \<noteq> []"
  shows "\<exists>ids. setAudioPatch_select configs req = Inl (SourceIdsNotFound ids)
            \<and> set ids = set (missing_of configs (sourcePortConfigIds req))"
proof -
  obtain sources m where sel: "selectByIds cfg_id configs (sourcePortConfigIds req) = (sources, m)"
    by (cases "selectByIds cfg_id configs (sourcePortConfigIds req)")
  with selectByIds_missing [of configs "sourcePortConfigIds req"]
  have m: "set m = set (missing_of configs (sourcePortConfigIds req))" by simp
  with assms have "m \<noteq> []" by auto
  with sel m show ?thesis by (simp add: setAudioPatch_select_def)
qed

lemma setAudioPatch_select_sinks:
  assumes "missing_of configs (sourcePortConfigIds req) = []"
    and "missing_of configs (sinkPortConfigIds req) \<noteq> []"
  shows "\<exists>ids. setAudioPatch_select configs req = Inl (SinkIdsNotFound ids)
            \<and> set ids = set (missing_of configs (sinkPortConfigIds req))"
proof -
  obtain sources m where sel: "selectByIds cfg_id configs (sourcePortConfigIds req) = (sources, m)"
    by (cases "selectByIds cfg_id configs (sourcePortConfigIds req)")
  with selectByIds_missing [of configs "sourcePortConfigIds req"] assms(1)
  have m: "m = []" by simp
  obtain sinks m' where sel': "selectByIds cfg_id configs (sinkPortConfigIds req) = (sinks, m')"
    by (cases "selectByIds cfg_id configs (sinkPortConfigIds req)")
  with selectByIds_missing [of configs "sinkPortConfigIds req"]
  have m': "set m' = set (missing_of configs (sinkPortConfigIds req))" by simp
  with assms(2) have "m' \<noteq> []" by auto
  with sel sel' m m' show ?thesis by (simp add: setAudioPatch_select_def)
qed

text \<open>
  Claim C8, as amended. Take a request whose lists pass the checks that come first (both
  non-empty and free of duplicates), so that the call gets to the look-up of the ids. When
  a port config id of the request is missing, \<open>setAudioPatch\<close> fails with
  \<open>EX_ILLEGAL_ARGUMENT\<close> and leaves the module as it was, and its one log message lists
  every missing id of one list: of the source list when a source id is missing, and of
  the sink list only when every source id resolves.
\<close>

theorem setAudioPatch_missing_ids_report:
  assumes "sourcePortConfigIds req \<noteq> []" and "all_unique (sourcePortConfigIds req)"
    and "sinkPortConfigIds req \<noteq> []" and "all_unique (sinkPortConfigIds req)"
    and missing:
      "missing_of (portConfigs s) (sourcePortConfigIds req @ sinkPortConfigIds req) \<noteq> []"
  shows "setAudioPatch K s req = (Inl EX_ILLEGAL_ARGUMENT, s)
       \<and> (if missing_of (portConfigs s) (sourcePortConfigIds req) \<noteq> []
          then \<exists>ids. setAudioPatch_select (portConfigs s) req = Inl (SourceIdsNotFound ids)
                 \<and> set ids = set (missing_of (portConfigs s) (sourcePortConfigIds req))
          else \<exists>ids. setAudioPatch_select (portConfigs s) req = Inl (SinkIdsNotFound ids)
                 \<and> set ids = set (missing_of (portConfigs s) (sinkPortConfigIds req)))"
proof (cases "missing_of (portConfigs s) (sourcePortConfigIds req) \<noteq> []")
  case True
  from setAudioPatch_select_sources [OF True]
  obtain ids where sel: "setAudioPatch_select (portConfigs s) req = Inl (SourceIdsNotFound ids)"
    and ids: "set ids = set (missing_of (portConfigs s) (sourcePortConfigIds req))"
    by blast
  from sel have "setAudioPatch K s req = (Inl EX_ILLEGAL_ARGUMENT, s)"
    by (simp add: setAudioPatch_def)
  with True sel ids show ?thesis by simp
next
  case False
  then have src: "missing_of (portConfigs s) (sourcePortConfigIds req) = []" by simp
  with missing have snk: "missing_of (portConfigs s) (sinkPortConfigIds req) \<noteq> []"
    by (simp add: missing_of_def)
  from setAudioPatch_select_sinks [OF src snk]
  obtain ids where sel: "setAudioPatch_select (portConfigs s) req = Inl (SinkIdsNotFound ids)"
    and ids: "set ids = set (missing_of (portConfigs s) (sinkPortConfigIds req))"
    by blast
  from sel have "setAudioPatch K s req = (Inl EX_ILLEGAL_ARGUMENT, s)"
    by (simp add: setAudioPatch_def)
  with src sel ids show ?thesis by simp
qed

text \<open>
  The claim as first stated fails: with source id 1 and sink id 2 both missing, the call
  returns after the source list and reports id 1 alone.
\<close>

theorem setAudioPatch_missing_ids_counterexample:
  "setAudioPatch_select (portConfigs empty_module) both_missing = Inl (SourceIdsNotFound [1])
   \<and> setAudioPatch demo_constants empty_module both_missing = (Inl EX_ILLEGAL_ARGUMENT, empty_module)
   \<and> missing_of (portConfigs empty_module)
        (sourcePortConfigIds both_missing @ sinkPortConfigIds both_missing) = [1, 2]"
  by (simp add: setAudioPatch_select_def setAudioPatch_def selectByIds_def both_missing_def
        patch_request_def empty_module_def missing_of_def findById_def all_unique_def)

theorem setAudioPatch_missing_ids_report_witness:
  "setAudioPatch demo_constants empty_module both_missing = (Inl EX_ILLEGAL_ARGUMENT, empty_module)
   \<and> (\<exists>ids. setAudioPatch_select (portConfigs empty_module) both_missing
              = Inl (SourceIdsNotFound ids) \<and> set ids = {1})"
proof -
  have m: "missing_of (portConfigs empty_module)
        (sourcePortConfigIds both_missing @ sinkPortConfigIds both_missing) \<noteq> []"
    by (simp add: both_missing_def patch_request_def empty_module_def missing_of_def findById_def)
  have src: "missing_of (portConfigs empty_module) (sourcePortConfigIds both_missing) = [1]"
    by (simp add: both_missing_def patch_request_def empty_module_def missing_of_def findById_def)
  have lists: "sourcePortConfigIds both_missing \<noteq> []" "all_unique (sourcePortConfigIds both_missing)"
    "sinkPortConfigIds both_missing \<noteq> []" "all_unique (sinkPortConfigIds both_missing)"
    by (simp_all add: both_missing_def patch_request_def all_unique_def)
  from setAudioPatch_missing_ids_report [OF lists m, of demo_constants] src
  show ?thesis by simp
qed

section \<open>Exclusive routes\<close>

lemma allowedSinkPorts_step_lookup:
  "map_of (allowedSinkPorts_step p r a) k =
     (if p \<in> set (sourcePortIds r) \<and> sinkPortId r = k
      then Some (map_of a k = Some True \<or> \<not> isExclusive r)
      else map_of a k)"
  by (auto simp: allowedSinkPorts_step_def map_of_map_set split: option.splits bool.splits)

lemma fold_step_lookup:
  "map_of (fold (allowedSinkPorts_step p) rs a) k =
     (if \<exists>r\<in>set rs. p \<in> set (sourcePortIds r) \<and> sinkPortId r = k
      then Some (map_of a k = Some True
                 \<or> (\<exists>r\<in>set rs. p \<in> set (sourcePortIds r) \<and> sinkPortId r = k \<and> \<not> isExclusive r))
      else map_of a k)"
proof (induction rs arbitrary: a)
  case Nil
  then show ?case by simp
next
  case (Cons r rs)
  show ?case
    by (simp add: Cons.IH allowedSinkPorts_step_lookup) blast
qed

lemma fold_sources_lookup:
  "map_of (fold (\<lambda>src. fold (allowedSinkPorts_step (portId src)) rs) sources a) k =
     (if \<exists>src\<in>set sources. \<exists>r\<in>set rs. portId src \<in> set (sourcePortIds r) \<and> sinkPortId r = k
      then Some (map_of a k = Some True
                 \<or> (\<exists>src\<in>set sources. \<exists>r\<in>set rs.
                       portId src \<in> set (sourcePortIds r) \<and> sinkPortId r = k \<and> \<not> isExclusive r))
      else map_of a k)"
proof (induction sources arbitrary: a)
  case Nil
  then show ?case by simp
next
  case (Cons src sources)
  show ?case
    by (simp add: Cons.IH fold_step_lookup) blast
qed

lemma allowedSinkPorts_lookup:
  "map_of (allowedSinkPorts rs sources) k =
     (if routes_to rs sources k = [] then None
      else Some (list_ex (\<lambda>r. \<not> isExclusive r) (routes_to rs sources k)))"
proof -
  have e: "routes_to rs sources k = [] \<longleftrightarrow>
      \<not> (\<exists>src\<in>set sources. \<exists>r\<in>set rs. portId src \<in> set (sourcePortIds r) \<and> sinkPortId r = k)"
    by (auto simp: routes_to_def filter_empty_conv list_ex_iff)
  have x: "list_ex (\<lambda>r. \<not> isExclusive r) (routes_to rs sources k) \<longleftrightarrow>
      (\<exists>src\<in>set sources. \<exists>r\<in>set rs.
          portId src \<in> set (sourcePortIds r) \<and> sinkPortId r = k \<and> \<not> isExclusive r)"
    by (auto simp: routes_to_def list_ex_iff)
  show ?thesis
    unfolding allowedSinkPorts_def fold_sources_lookup e x by simp
qed

lemma exclusiveSinkInUse_iff:
  "exclusiveSinkInUse index allowed \<longleftrightarrow>
     (\<exists>entry\<in>set allowed. \<not> snd entry \<and> fst entry \<in> fst ` set index)"
  by (simp add: exclusiveSinkInUse_def list_ex_iff mm_count_nonzero)

text \<open>
  Claim C2. Take a request that passes the argument checks that come first (source and
  sink lists non-empty and free of duplicates, every id resolved, a route to the port of
  every sink, and an id that is 0 or that of a patch in the store). If every route
  available from the ports of its sources to the port of one of its sinks is exclusive,
  and the index holds an entry for that sink port that belongs to another patch, then
  \<open>setAudioPatch\<close> fails with \<open>EX_ILLEGAL_STATE\<close> and returns the module exactly as it
  was: patch list, index and counters. In the update case the entries of the existing
  patch were removed from the index before the check and are restored from the backup.
\<close>

theorem setAudioPatch_exclusive_sink_in_use:
  assumes src: "sourcePortConfigIds req \<noteq> []" "distinct (sourcePortConfigIds req)"
    and snk: "sinkPortConfigIds req \<noteq> []" "distinct (sinkPortConfigIds req)"
    and sel: "setAudioPatch_select (portConfigs s) req = Inr (sources, sinks)"
    and routed: "list_all (\<lambda>sink. routes_to (routes s) sources (portId sink) \<noteq> []) sinks"
    and target: "patch_id req = 0 \<or> findById patch_id (patches s) (patch_id req) \<noteq> None"
    and sink: "sink \<in> set sinks"
    and excl: "list_all isExclusive (routes_to (routes s) sources (portId sink))"
    and claimed: "(portId sink, other) \<in> set (mPatches s)"
      "patch_id req = 0 \<or> other \<noteq> patch_id req"
  shows "setAudioPatch K s req = (Inl EX_ILLEGAL_STATE, s)"
proof -
  let ?allowed = "allowedSinkPorts (routes s) sources"
  from routed have r: "\<not> list_ex (\<lambda>sink. map_of ?allowed (portId sink) = None) sinks"
    by (auto simp: list_all_iff list_ex_iff allowedSinkPorts_lookup)
  from routed sink have ne: "routes_to (routes s) sources (portId sink) \<noteq> []"
    by (simp add: list_all_iff)
  with excl have "map_of ?allowed (portId sink) = Some False"
    by (auto simp: allowedSinkPorts_lookup list_all_iff list_ex_iff)
  then have entry: "(portId sink, False) \<in> set ?allowed"
    by (rule map_of_SomeD)
  show ?thesis
  proof (cases "patch_id req = 0")
    case True
    from entry claimed(1) have "exclusiveSinkInUse (mPatches s) ?allowed"
      by (force simp: exclusiveSinkInUse_iff)
    with True src snk sel r show ?thesis
      by (simp add: setAudioPatch_def all_unique_def)
  next
    case False
    with target obtain i where i: "findById patch_id (patches s) (patch_id req) = Some i"
      by auto
    from findById_Some [OF i] have pid: "patch_id (patches s ! i) = patch_id req"
      by simp
    from claimed False
    have "(portId sink, other) \<in> set (mPatches (cleanUpPatch s (patch_id req)))"
      by (simp add: cleanUpPatch_def erase_all_values_def erase_if_def)
    with entry have "exclusiveSinkInUse (mPatches (cleanUpPatch s (patch_id req))) ?allowed"
      by (force simp: exclusiveSinkInUse_iff)
    moreover have "(cleanUpPatch s (patch_id req))\<lparr>mPatches := mPatches s\<rparr> = s"
      by (simp add: cleanUpPatch_def)
    ultimately show ?thesis
      using False src snk sel r i pid
      by (simp add: setAudioPatch_def all_unique_def)
  qed
qed



lemmas demo_defs = routing_demo_def empty_module_def demo_constants_def patch_request_def
  config_of_def mix_port_def device_port_def demo_profile_def pcm16_def stereo_def

lemmas setAudioPatch_defs = setAudioPatch_def setAudioPatch_select_def selectByIds_def
  all_unique_def allowedSinkPorts_def allowedSinkPorts_step_def exclusiveSinkInUse_def
  mm_count_def findById_def registerPatch_def mm_insert_def cleanUpPatch_def
  erase_all_values_def erase_if_def Let_def

lemma one_patch_eval:
  "one_patch = routing_demo
     \<lparr>patches := [\<lparr>patch_id = 1, sourcePortConfigIds = [30], sinkPortConfigIds = [40],
                    minimumStreamBufferSizeFrames = 16, latenciesMs = [10]\<rparr>],
      nextPatchId := 2,
      mPatches := [(3, 1), (4, 1), (30, 1), (40, 1)]\<rparr>"
  by (simp add: one_patch_def demo_defs setAudioPatch_defs)

lemma two_patches_eval:
  "two_patches = routing_demo
     \<lparr>patches := [\<lparr>patch_id = 1, sourcePortConfigIds = [30], sinkPortConfigIds = [40],
                    minimumStreamBufferSizeFrames = 16, latenciesMs = [10]\<rparr>,
                  \<lparr>patch_id = 2, sourcePortConfigIds = [10], sinkPortConfigIds = [20],
                    minimumStreamBufferSizeFrames = 16, latenciesMs = [10]\<rparr>],
      nextPatchId := 3,
      mPatches := [(1, 2), (2, 2), (3, 1), (4, 1), (10, 2), (20, 2), (30, 1), (40, 1)]\<rparr>"
  by (simp add: two_patches_def one_patch_eval demo_defs setAudioPatch_defs)

lemma patch_request_sel:
  "patch_id (patch_request i srcs snks) = i"
  "sourcePortConfigIds (patch_request i srcs snks) = srcs"
  "sinkPortConfigIds (patch_request i srcs snks) = snks"
  by (simp_all add: patch_request_def)

theorem setAudioPatch_exclusive_sink_in_use_witness:
  "setAudioPatch demo_constants two_patches (patch_request 1 [30] [20])
     = (Inl EX_ILLEGAL_STATE, two_patches)
   \<and> setAudioPatch demo_constants two_patches (patch_request 0 [30] [20])
     = (Inl EX_ILLEGAL_STATE, two_patches)"
proof -
  have sel: "setAudioPatch_select (portConfigs two_patches) (patch_request i [30] [20])
      = Inr ([config_of 30 3], [config_of 20 2])" for i
    by (simp add: two_patches_eval demo_defs setAudioPatch_select_def selectByIds_def)
  have rt: "routes_to (routes two_patches) [config_of 30 3] (portId (config_of 20 2))
      = [\<lparr>sourcePortIds = [1, 3], sinkPortId = 2, isExclusive = True\<rparr>]"
    by (simp add: two_patches_eval demo_defs routes_to_def)
  have claimed: "(portId (config_of 20 2), 2) \<in> set (mPatches two_patches)"
    by (simp add: two_patches_eval demo_defs)
  have target: "findById patch_id (patches two_patches) 1 \<noteq> None"
    by (simp add: two_patches_eval demo_defs findById_def)
  have update: "setAudioPatch demo_constants two_patches (patch_request 1 [30] [20])
      = (Inl EX_ILLEGAL_STATE, two_patches)"
    by (rule setAudioPatch_exclusive_sink_in_use
          [where sources = "[config_of 30 3]" and sinks = "[config_of 20 2]"
             and sink = "config_of 20 2" and other = 2])
       (simp_all add: patch_request_sel sel rt claimed target)
  have create: "setAudioPatch demo_constants two_patches (patch_request 0 [30] [20])
      = (Inl EX_ILLEGAL_STATE, two_patches)"
    by (rule setAudioPatch_exclusive_sink_in_use
          [where sources = "[config_of 30 3]" and sinks = "[config_of 20 2]"
             and sink = "config_of 20 2" and other = 2])
       (simp_all add: patch_request_sel sel rt claimed)
  from update create show ?thesis by simp
qed

section \<open>The index under \<open>setAudioPatch\<close> and \<open>resetAudioPatch\<close>\<close>

lemma set_do_insert:
  "set (do_insert configs pid ids m) =
     set m \<union> (\<lambda>k. (k, pid)) `
       (set (filter (\<lambda>i. findById cfg_id configs i \<noteq> None) ids) \<union> set (owning_ports configs ids))"
proof (induction ids arbitrary: m)
  case Nil
  then show ?case by (simp add: owning_ports_def)
next
  case (Cons i ids)
  show ?case
  proof (cases "findById cfg_id configs i")
    case None
    then show ?thesis by (simp add: Cons.IH owning_ports_def)
  next
    case (Some n)
    then show ?thesis
      by (auto simp: Cons.IH owning_ports_def set_mm_insert Let_def)
  qed
qed

lemma set_do_insert_found:
  assumes "list_all (\<lambda>i. findById cfg_id configs i \<noteq> None) ids"
  shows "set (do_insert configs pid ids m) =
           set m \<union> (\<lambda>k. (k, pid)) ` (set ids \<union> set (owning_ports configs ids))"
proof -
  from assms have "filter (\<lambda>i. findById cfg_id configs i \<noteq> None) ids = ids"
    by (simp add: list_all_iff filter_id_conv)
  then show ?thesis by (simp only: set_do_insert)
qed

lemma index_keys_set: "set (index_keys m v) = {k. (k, v) \<in> set m}"
  by (force simp: index_keys_def)

lemma owning_ports_append:
  "set (owning_ports c (xs @ ys)) = set (owning_ports c xs) \<union> set (owning_ports c ys)"
  by (simp add: owning_ports_def)

lemma index_keys_registerPatch:
  assumes "list_all (\<lambda>i. findById cfg_id (portConfigs s) i \<noteq> None)
             (sourcePortConfigIds patch @ sinkPortConfigIds patch)"
  shows "set (index_keys (mPatches (registerPatch s patch)) v) =
           set (index_keys (mPatches s) v)
           \<union> (if v = patch_id patch then set (patch_keys (portConfigs s) patch) else {})"
proof -
  from assms have f: "list_all (\<lambda>i. findById cfg_id (portConfigs s) i \<noteq> None)
        (sourcePortConfigIds patch)"
    "list_all (\<lambda>i. findById cfg_id (portConfigs s) i \<noteq> None) (sinkPortConfigIds patch)"
    by simp_all
  have "set (mPatches (registerPatch s patch)) =
      set (mPatches s) \<union> (\<lambda>k. (k, patch_id patch)) ` set (patch_keys (portConfigs s) patch)"
    by (simp add: registerPatch_def set_do_insert_found [OF f(1)] set_do_insert_found [OF f(2)]
          patch_keys_def owning_ports_append image_Un Un_ac)
  then show ?thesis
    by (auto simp: index_keys_set)
qed

lemma index_keys_cleanUpPatch:
  "set (index_keys (mPatches (cleanUpPatch s i)) v) =
     (if v = i then {} else set (index_keys (mPatches s) v))"
  by (auto simp: index_keys_set cleanUpPatch_def erase_all_values_def erase_if_def)

lemma setAudioPatch_select_found:
  assumes "setAudioPatch_select configs req = Inr (sources, sinks)"
  shows "list_all (\<lambda>i. findById cfg_id configs i \<noteq> None)
           (sourcePortConfigIds req @ sinkPortConfigIds req)"
proof -
  obtain a m where sa: "selectByIds cfg_id configs (sourcePortConfigIds req) = (a, m)"
    by (cases "selectByIds cfg_id configs (sourcePortConfigIds req)")
  obtain b m' where sb: "selectByIds cfg_id configs (sinkPortConfigIds req) = (b, m')"
    by (cases "selectByIds cfg_id configs (sinkPortConfigIds req)")
  from assms sa sb have "m = []" "m' = []"
    by (auto simp: setAudioPatch_select_def split: if_splits)
  with selectByIds_missing [of configs "sourcePortConfigIds req"]
       selectByIds_missing [of configs "sinkPortConfigIds req"] sa sb
  have "missing_of configs (sourcePortConfigIds req) = []"
    "missing_of configs (sinkPortConfigIds req) = []"
    by simp_all
  then show ?thesis
    by (auto simp: missing_of_def filter_empty_conv list_all_iff)
qed

lemma set_mPatches_registerPatch:
  assumes "list_all (\<lambda>i. findById cfg_id (portConfigs s) i \<noteq> None)
             (sourcePortConfigIds patch @ sinkPortConfigIds patch)"
  shows "set (mPatches (registerPatch s patch)) =
      set (mPatches s) \<union> (\<lambda>k. (k, patch_id patch)) ` set (patch_keys (portConfigs s) patch)"
proof -
  from assms have f: "list_all (\<lambda>i. findById cfg_id (portConfigs s) i \<noteq> None)
        (sourcePortConfigIds patch)"
    "list_all (\<lambda>i. findById cfg_id (portConfigs s) i \<noteq> None) (sinkPortConfigIds patch)"
    by simp_all
  show ?thesis
    by (simp add: registerPatch_def set_do_insert_found [OF f(1)] set_do_insert_found [OF f(2)]
          patch_keys_def owning_ports_append image_Un Un_ac)
qed

lemma registerPatch_frame:
  "patches (registerPatch s patch) = patches s"
  "portConfigs (registerPatch s patch) = portConfigs s"
  "nextPatchId (registerPatch s patch) = nextPatchId s"
  by (simp_all add: registerPatch_def)

lemma cleanUpPatch_frame:
  "patches (cleanUpPatch s i) = patches s"
  "portConfigs (cleanUpPatch s i) = portConfigs s"
  "nextPatchId (cleanUpPatch s i) = nextPatchId s"
  "set (mPatches (cleanUpPatch s i)) \<subseteq> set (mPatches s)"
  by (auto simp: cleanUpPatch_def erase_all_values_def erase_if_def)

lemma patch_keys_cong:
  "sourcePortConfigIds p = sourcePortConfigIds q \<Longrightarrow> sinkPortConfigIds p = sinkPortConfigIds q
   \<Longrightarrow> patch_keys configs p = patch_keys configs q"
  by (simp add: patch_keys_def)

lemma setAudioPatch_failure_unchanged:
  "fst (setAudioPatch K s req) = Inl e \<Longrightarrow> snd (setAudioPatch K s req) = s"
  by (auto simp: setAudioPatch_def Let_def cleanUpPatch_def
           split: sum.splits prod.splits option.splits if_splits)

lemma setAudioPatch_created:
  assumes "fst (setAudioPatch K s req) = Inr p" and "patch_id req = 0"
  shows "list_all (\<lambda>i. findById cfg_id (portConfigs s) i \<noteq> None)
           (sourcePortConfigIds p @ sinkPortConfigIds p)
       \<and> patch_id p = nextPatchId s
       \<and> sourcePortConfigIds p = sourcePortConfigIds req
       \<and> sinkPortConfigIds p = sinkPortConfigIds req
       \<and> snd (setAudioPatch K s req)
           = registerPatch (s\<lparr>nextPatchId := nextPatchId s + 1, patches := patches s @ [p]\<rparr>) p"
  using assms
  by (auto simp: setAudioPatch_def Let_def
           split: sum.splits prod.splits option.splits if_splits
           dest: setAudioPatch_select_found)

lemma setAudioPatch_updated:
  assumes "fst (setAudioPatch K s req) = Inr p" and "patch_id req \<noteq> 0"
  shows "\<exists>i. findById patch_id (patches s) (patch_id req) = Some i
       \<and> list_all (\<lambda>i. findById cfg_id (portConfigs s) i \<noteq> None)
           (sourcePortConfigIds p @ sinkPortConfigIds p)
       \<and> patch_id p = patch_id req
       \<and> sourcePortConfigIds p = sourcePortConfigIds req
       \<and> sinkPortConfigIds p = sinkPortConfigIds req
       \<and> snd (setAudioPatch K s req)
           = registerPatch ((cleanUpPatch s (patch_id req))\<lparr>patches := (patches s)[i := p]\<rparr>) p"
  using assms
  by (auto simp: setAudioPatch_def Let_def cleanUpPatch_frame
           split: sum.splits prod.splits option.splits if_splits
           dest: setAudioPatch_select_found findById_Some)

lemma no_keys_of_future_patch:
  assumes "list_all (\<lambda>entry. snd entry < n) m" and "n \<le> v"
  shows "set (index_keys m v) = {}"
proof -
  have "(k, v) \<notin> set m" for k
  proof
    assume "(k, v) \<in> set m"
    with assms(1) have "v < n" by (auto simp: list_all_iff)
    with assms(2) show False by simp
  qed
  then show ?thesis by (simp add: index_keys_set)
qed

lemma created_patch_consistent:
  assumes c: "patch_store_consistent s"
    and found: "list_all (\<lambda>i. findById cfg_id (portConfigs s) i \<noteq> None)
           (sourcePortConfigIds p @ sinkPortConfigIds p)"
    and pid: "patch_id p = nextPatchId s"
  shows "patch_store_consistent
           (registerPatch (s\<lparr>nextPatchId := nextPatchId s + 1, patches := patches s @ [p]\<rparr>) p)"
proof -
  let ?s0 = "s\<lparr>nextPatchId := nextPatchId s + 1, patches := patches s @ [p]\<rparr>"
  let ?s' = "registerPatch ?s0 p"
  from c have d: "distinct (map patch_id (patches s))"
    and bp: "\<forall>q\<in>set (patches s). patch_id q < nextPatchId s"
    and bi: "list_all (\<lambda>entry. snd entry < nextPatchId s) (mPatches s)"
    and mir: "\<forall>q\<in>set (patches s).
        set (index_keys (mPatches s) (patch_id q)) = set (patch_keys (portConfigs s) q)"
    by (simp_all add: patch_store_consistent_def index_mirrors_patches_def list_all_iff)
  from found have found0: "list_all (\<lambda>i. findById cfg_id (portConfigs ?s0) i \<noteq> None)
           (sourcePortConfigIds p @ sinkPortConfigIds p)"
    by simp
  have keys: "set (index_keys (mPatches ?s') v) =
      set (index_keys (mPatches s) v)
      \<union> (if v = patch_id p then set (patch_keys (portConfigs s) p) else {})" for v
    using index_keys_registerPatch [OF found0, of v] by simp
  have entries: "set (mPatches ?s') =
      set (mPatches s) \<union> (\<lambda>k. (k, patch_id p)) ` set (patch_keys (portConfigs s) p)"
    using set_mPatches_registerPatch [OF found0] by simp
  have fresh: "patch_id p \<notin> patch_id ` set (patches s)"
    using bp pid by auto
  have 1: "distinct (map patch_id (patches ?s'))"
    using d fresh by (simp add: registerPatch_frame)
  have 2: "list_all (\<lambda>q. patch_id q < nextPatchId ?s') (patches ?s')"
    using bp pid by (auto simp: registerPatch_frame list_all_iff)
  have 3: "list_all (\<lambda>entry. snd entry < nextPatchId ?s') (mPatches ?s')"
    using bi pid by (auto simp: registerPatch_frame list_all_iff entries)
  have old: "set (index_keys (mPatches ?s') (patch_id q)) = set (patch_keys (portConfigs ?s') q)"
    if "q \<in> set (patches s)" for q
  proof -
    from that fresh have "patch_id q \<noteq> patch_id p" by (metis imageI)
    with that mir show ?thesis by (simp add: keys registerPatch_frame)
  qed
  have new: "set (index_keys (mPatches ?s') (patch_id p)) = set (patch_keys (portConfigs ?s') p)"
    using no_keys_of_future_patch [OF bi, of "patch_id p"] pid
    by (simp add: keys registerPatch_frame)
  have 4: "index_mirrors_patches ?s'"
    unfolding index_mirrors_patches_def list_all_iff
    using old new by (auto simp: registerPatch_frame)
  from 1 2 3 4 show ?thesis by (simp add: patch_store_consistent_def)
qed

lemma in_erase_at:
  assumes "q \<in> set (erase_at i ps)"
  shows "\<exists>j<length ps. j \<noteq> i \<and> q = ps ! j"
proof -
  from assms consider "q \<in> set (take i ps)" | "q \<in> set (drop (Suc i) ps)"
    by (auto simp: erase_at_def)
  then show ?thesis
  proof cases
    case 1
    then obtain k where "k < length (take i ps)" and "take i ps ! k = q"
      by (auto simp: in_set_conv_nth)
    then have "k < length ps" "k \<noteq> i" "q = ps ! k" by auto
    then show ?thesis by blast
  next
    case 2
    then obtain k where "k < length (drop (Suc i) ps)" and "drop (Suc i) ps ! k = q"
      by (auto simp: in_set_conv_nth)
    then have "Suc i + k < length ps" "Suc i + k \<noteq> i" "q = ps ! (Suc i + k)" by auto
    then show ?thesis by blast
  qed
qed

lemma distinct_ids_elsewhere:
  assumes "distinct (map patch_id ps)" and "i < length ps" and "j < length ps" and "j \<noteq> i"
  shows "patch_id (ps ! j) \<noteq> patch_id (ps ! i)"
  using assms by (simp add: distinct_conv_nth)

lemma updated_patch_consistent:
  assumes c: "patch_store_consistent s"
    and i: "findById patch_id (patches s) (patch_id p) = Some i"
    and found: "list_all (\<lambda>i. findById cfg_id (portConfigs s) i \<noteq> None)
           (sourcePortConfigIds p @ sinkPortConfigIds p)"
  shows "patch_store_consistent
           (registerPatch ((cleanUpPatch s (patch_id p))\<lparr>patches := (patches s)[i := p]\<rparr>) p)"
proof -
  let ?s0 = "(cleanUpPatch s (patch_id p))\<lparr>patches := (patches s)[i := p]\<rparr>"
  let ?s' = "registerPatch ?s0 p"
  from findById_Some [OF i] have len: "i < length (patches s)"
    and same: "patch_id (patches s ! i) = patch_id p"
    by simp_all
  from c have d: "distinct (map patch_id (patches s))"
    and bp: "\<forall>q\<in>set (patches s). patch_id q < nextPatchId s"
    and bi: "\<forall>entry\<in>set (mPatches s). snd entry < nextPatchId s"
    and mir: "\<forall>q\<in>set (patches s).
        set (index_keys (mPatches s) (patch_id q)) = set (patch_keys (portConfigs s) q)"
    by (simp_all add: patch_store_consistent_def index_mirrors_patches_def list_all_iff)
  from bp len same have below: "patch_id p < nextPatchId s"
    by (metis nth_mem)
  from found have found0: "list_all (\<lambda>i. findById cfg_id (portConfigs ?s0) i \<noteq> None)
           (sourcePortConfigIds p @ sinkPortConfigIds p)"
    by (simp add: cleanUpPatch_frame)
  have keys: "set (index_keys (mPatches ?s') v) =
      (if v = patch_id p then set (patch_keys (portConfigs s) p)
       else set (index_keys (mPatches s) v))" for v
    using index_keys_registerPatch [OF found0, of v] index_keys_cleanUpPatch [of s "patch_id p" v]
    by (simp add: cleanUpPatch_frame)
  have entries: "set (mPatches ?s') \<subseteq>
      set (mPatches s) \<union> (\<lambda>k. (k, patch_id p)) ` set (patch_keys (portConfigs s) p)"
  proof -
    have "set (mPatches ?s') = set (mPatches (cleanUpPatch s (patch_id p)))
        \<union> (\<lambda>k. (k, patch_id p)) ` set (patch_keys (portConfigs s) p)"
      using set_mPatches_registerPatch [OF found0] by (simp add: cleanUpPatch_frame)
    then show ?thesis using cleanUpPatch_frame(4) [of s "patch_id p"] by blast
  qed
  have ids: "map patch_id ((patches s)[i := p]) = map patch_id (patches s)"
    using same len by (simp add: map_update list_update_same_conv)
  have 1: "distinct (map patch_id (patches ?s'))"
    using d by (simp add: registerPatch_frame ids)
  have 2: "list_all (\<lambda>q. patch_id q < nextPatchId ?s') (patches ?s')"
  proof -
    have "set ((patches s)[i := p]) \<subseteq> insert p (set (patches s))"
      by (rule set_update_subset_insert)
    with bp below show ?thesis
      by (auto simp: registerPatch_frame cleanUpPatch_frame list_all_iff)
  qed
  have 3: "list_all (\<lambda>entry. snd entry < nextPatchId ?s') (mPatches ?s')"
    using bi below entries by (auto simp: registerPatch_frame cleanUpPatch_frame list_all_iff)
  have 4: "index_mirrors_patches ?s'"
    unfolding index_mirrors_patches_def list_all_length
  proof (intro allI impI)
    fix j assume "j < length (patches ?s')"
    then have j: "j < length (patches s)" by (simp add: registerPatch_frame)
    show "set (index_keys (mPatches ?s') (patch_id (patches ?s' ! j)))
        = set (patch_keys (portConfigs ?s') (patches ?s' ! j))"
    proof (cases "j = i")
      case True
      with len show ?thesis
        by (simp add: registerPatch_frame cleanUpPatch_frame keys)
    next
      case False
      from distinct_ids_elsewhere [OF d len j False] same
      have "patch_id (patches s ! j) \<noteq> patch_id p" by simp
      moreover from mir j have "set (index_keys (mPatches s) (patch_id (patches s ! j)))
          = set (patch_keys (portConfigs s) (patches s ! j))"
        by simp
      ultimately show ?thesis using False
        by (simp add: registerPatch_frame cleanUpPatch_frame keys)
    qed
  qed
  from 1 2 3 4 show ?thesis by (simp add: patch_store_consistent_def)
qed

text \<open>
  On stores that keep the discipline of patch ids, \<open>setAudioPatch\<close> and \<open>resetAudioPatch\<close>
  keep the index a mirror of the patch list, whatever the request and whether or not the
  call succeeds.
\<close>

lemma setAudioPatch_keeps_index:
  assumes "patch_store_consistent s"
  shows "patch_store_consistent (snd (setAudioPatch K s req))"
proof (cases "fst (setAudioPatch K s req)")
  case (Inl e)
  with assms show ?thesis by (simp add: setAudioPatch_failure_unchanged)
next
  case (Inr p)
  show ?thesis
  proof (cases "patch_id req = 0")
    case True
    from setAudioPatch_created [OF Inr True]
    have found: "list_all (\<lambda>i. findById cfg_id (portConfigs s) i \<noteq> None)
           (sourcePortConfigIds p @ sinkPortConfigIds p)"
      and pid: "patch_id p = nextPatchId s"
      and s': "snd (setAudioPatch K s req)
           = registerPatch (s\<lparr>nextPatchId := nextPatchId s + 1, patches := patches s @ [p]\<rparr>) p"
      by blast+
    from created_patch_consistent [OF assms found pid] show ?thesis
      by (simp only: s')
  next
    case False
    from setAudioPatch_updated [OF Inr False]
    obtain i where i: "findById patch_id (patches s) (patch_id p) = Some i"
      and found: "list_all (\<lambda>i. findById cfg_id (portConfigs s) i \<noteq> None)
           (sourcePortConfigIds p @ sinkPortConfigIds p)"
      and s': "snd (setAudioPatch K s req)
           = registerPatch ((cleanUpPatch s (patch_id p))\<lparr>patches := (patches s)[i := p]\<rparr>) p"
      by auto
    from updated_patch_consistent [OF assms i found] show ?thesis
      by (simp only: s')
  qed
qed

lemma resetAudioPatch_keeps_index:
  assumes c: "patch_store_consistent s"
  shows "patch_store_consistent (snd (resetAudioPatch s in_patchId))"
proof (cases "findById patch_id (patches s) in_patchId")
  case None
  with c show ?thesis by (simp add: resetAudioPatch_def)
next
  case (Some i)
  from findById_Some [OF Some] have len: "i < length (patches s)"
    and same: "patch_id (patches s ! i) = in_patchId"
    by simp_all
  let ?s' = "(cleanUpPatch s in_patchId)\<lparr>patches := erase_at i (patches s)\<rparr>"
  from Some same have s': "snd (resetAudioPatch s in_patchId) = ?s'"
    by (simp add: resetAudioPatch_def Let_def cleanUpPatch_frame)
  from c have d: "distinct (map patch_id (patches s))"
    and bp: "\<forall>q\<in>set (patches s). patch_id q < nextPatchId s"
    and bi: "\<forall>entry\<in>set (mPatches s). snd entry < nextPatchId s"
    and mir: "\<forall>q\<in>set (patches s).
        set (index_keys (mPatches s) (patch_id q)) = set (patch_keys (portConfigs s) q)"
    by (simp_all add: patch_store_consistent_def index_mirrors_patches_def list_all_iff)
  have sub: "set (erase_at i (patches s)) \<subseteq> set (patches s)"
    by (rule erase_at_subset)
  have ids: "map patch_id (erase_at i (patches s))
      = take i (map patch_id (patches s)) @ drop (Suc i) (map patch_id (patches s))"
    by (simp add: erase_at_def take_map drop_map)
  have 1: "distinct (map patch_id (erase_at i (patches s)))"
    using d by (simp add: ids distinct_take distinct_drop set_take_disj_set_drop_if_distinct)
  have gone: "patch_id q \<noteq> in_patchId" if "q \<in> set (erase_at i (patches s))" for q
  proof -
    from in_erase_at [OF that] obtain j where "j < length (patches s)" "j \<noteq> i"
      and "q = patches s ! j"
      by blast
    with distinct_ids_elsewhere [OF d len] same show ?thesis by simp
  qed
  have 2: "list_all (\<lambda>q. patch_id q < nextPatchId ?s') (patches ?s')"
    using bp sub by (auto simp: cleanUpPatch_frame list_all_iff)
  have 3: "list_all (\<lambda>entry. snd entry < nextPatchId ?s') (mPatches ?s')"
    using bi
    by (auto simp: cleanUpPatch_frame list_all_iff
             dest!: subsetD [OF cleanUpPatch_frame(4) [of s in_patchId]])
  have 4: "index_mirrors_patches ?s'"
    unfolding index_mirrors_patches_def list_all_iff
  proof
    fix q assume "q \<in> set (patches ?s')"
    then have q: "q \<in> set (erase_at i (patches s))" by simp
    from gone [OF q] have "patch_id q \<noteq> in_patchId" .
    moreover from q sub mir have "set (index_keys (mPatches s) (patch_id q))
        = set (patch_keys (portConfigs s) q)"
      by auto
    ultimately show "set (index_keys (mPatches ?s') (patch_id q))
        = set (patch_keys (portConfigs ?s') q)"
      using index_keys_cleanUpPatch [of s in_patchId "patch_id q"]
      by (simp add: cleanUpPatch_frame)
  qed
  from 1 2 3 4 show ?thesis by (simp add: s' patch_store_consistent_def)
qed

section \<open>Cleaning up after a port config\<close>

lemmas cleanUpPatches_defs = cleanUpPatches_def mm_equal_range_def strip_config_def
  erase_at_def erase_all_values_def erase_if_def findById_def Let_def

lemma shared_sink_eval:
  "shared_sink = routing_demo
     \<lparr>patches := [\<lparr>patch_id = 1, sourcePortConfigIds = [30], sinkPortConfigIds = [40],
                    minimumStreamBufferSizeFrames = 16, latenciesMs = [10]\<rparr>,
                  \<lparr>patch_id = 2, sourcePortConfigIds = [10], sinkPortConfigIds = [20, 40],
                    minimumStreamBufferSizeFrames = 16, latenciesMs = [10, 10]\<rparr>],
      nextPatchId := 3,
      mPatches := [(1, 2), (2, 2), (3, 1), (4, 1), (4, 2), (10, 2), (20, 2), (30, 1),
                   (40, 1), (40, 2)]\<rparr>"
  by (simp add: shared_sink_def one_patch_eval demo_defs setAudioPatch_defs)

text \<open>
  Claim C3 fails on the code at position 0 of the patch list. In \<open>one_patch\<close> the only
  patch connects config 30 to config 40. After \<open>cleanUpPatches\<close> for config 30 the patch
  is still in the list, with an empty source list, and the index still holds its four
  entries. At position 1 the same call works: in \<open>two_patches\<close> the patch from config 10
  to config 20 is deleted with its index entries.
\<close>

theorem cleanUpPatches_keeps_first_patch:
  "patches (cleanUpPatches one_patch 30)
     = [\<lparr>patch_id = 1, sourcePortConfigIds = [], sinkPortConfigIds = [40],
         minimumStreamBufferSizeFrames = 16, latenciesMs = [10]\<rparr>]
   \<and> mPatches (cleanUpPatches one_patch 30) = [(3, 1), (4, 1), (30, 1), (40, 1)]
   \<and> patches (cleanUpPatches two_patches 10)
     = [\<lparr>patch_id = 1, sourcePortConfigIds = [30], sinkPortConfigIds = [40],
         minimumStreamBufferSizeFrames = 16, latenciesMs = [10]\<rparr>]
   \<and> mPatches (cleanUpPatches two_patches 10) = [(3, 1), (4, 1), (30, 1), (40, 1)]"
  by (simp add: one_patch_eval two_patches_eval demo_defs cleanUpPatches_defs)

text \<open>
  Claim C1 fails on the code after \<open>cleanUpPatches\<close>. \<open>shared_sink\<close> is reached from
  \<open>routing_demo\<close> by two calls of \<open>setAudioPatch\<close>, so there the index mirrors the two
  patches (by \<open>setAudioPatch_keeps_index\<close>). \<open>cleanUpPatches\<close> for config 20 strips that
  id from patch 2, which keeps source 10 and sink 40 and stays in the list, at position
  1; the index keeps the entries of config 20 and of its port 2 for patch 2, so it no
  longer mirrors the patch list. No patch stands for port 2 any more, and still a request
  to move patch 1 to the exclusive sink port 2 is refused as if the port were in use.
\<close>

theorem cleanUpPatches_leaves_stale_index:
  "index_mirrors_patches shared_sink
   \<and> patches (cleanUpPatches shared_sink 20)
     = [\<lparr>patch_id = 1, sourcePortConfigIds = [30], sinkPortConfigIds = [40],
         minimumStreamBufferSizeFrames = 16, latenciesMs = [10]\<rparr>,
        \<lparr>patch_id = 2, sourcePortConfigIds = [10], sinkPortConfigIds = [40],
         minimumStreamBufferSizeFrames = 16, latenciesMs = [10, 10]\<rparr>]
   \<and> mPatches (cleanUpPatches shared_sink 20) = mPatches shared_sink
   \<and> (20, 2) \<in> set (mPatches (cleanUpPatches shared_sink 20))
   \<and> (2, 2) \<in> set (mPatches (cleanUpPatches shared_sink 20))
   \<and> \<not> index_mirrors_patches (cleanUpPatches shared_sink 20)
   \<and> fst (setAudioPatch demo_constants (cleanUpPatches shared_sink 20)
            (patch_request 1 [30] [20])) = Inl EX_ILLEGAL_STATE"
proof -
  have "patch_store_consistent routing_demo"
    by (simp add: patch_store_consistent_def index_mirrors_patches_def demo_defs)
  then have "patch_store_consistent one_patch"
    unfolding one_patch_def by (rule setAudioPatch_keeps_index)
  then have "patch_store_consistent shared_sink"
    unfolding shared_sink_def by (rule setAudioPatch_keeps_index)
  then have before: "index_mirrors_patches shared_sink"
    by (simp add: patch_store_consistent_def)
  have cleaned: "cleanUpPatches shared_sink 20 = shared_sink
     \<lparr>patches := [\<lparr>patch_id = 1, sourcePortConfigIds = [30], sinkPortConfigIds = [40],
                    minimumStreamBufferSizeFrames = 16, latenciesMs = [10]\<rparr>,
                  \<lparr>patch_id = 2, sourcePortConfigIds = [10], sinkPortConfigIds = [40],
                    minimumStreamBufferSizeFrames = 16, latenciesMs = [10, 10]\<rparr>]\<rparr>"
    by (simp add: shared_sink_eval demo_defs cleanUpPatches_defs)
  have ps: "patches (cleanUpPatches shared_sink 20)
     = [\<lparr>patch_id = 1, sourcePortConfigIds = [30], sinkPortConfigIds = [40],
         minimumStreamBufferSizeFrames = 16, latenciesMs = [10]\<rparr>,
        \<lparr>patch_id = 2, sourcePortConfigIds = [10], sinkPortConfigIds = [40],
         minimumStreamBufferSizeFrames = 16, latenciesMs = [10, 10]\<rparr>]"
    and ix: "mPatches (cleanUpPatches shared_sink 20) = mPatches shared_sink"
    and cf: "portConfigs (cleanUpPatches shared_sink 20) = portConfigs shared_sink"
    by (simp_all add: cleaned)
  have stale: "(20, 2) \<in> set (mPatches shared_sink)" "(2, 2) \<in> set (mPatches shared_sink)"
    by (simp_all add: shared_sink_eval demo_defs)
  have inside: "20 \<in> set (index_keys (mPatches shared_sink) 2)"
    by (simp add: shared_sink_eval demo_defs index_keys_def)
  have outside: "20 \<notin> set (patch_keys (portConfigs shared_sink)
      \<lparr>patch_id = 2, sourcePortConfigIds = [10], sinkPortConfigIds = [40],
       minimumStreamBufferSizeFrames = 16, latenciesMs = [10, 10]\<rparr>)"
    by (simp add: shared_sink_eval demo_defs patch_keys_def owning_ports_def findById_def)
  have after: "\<not> index_mirrors_patches (cleanUpPatches shared_sink 20)"
    unfolding index_mirrors_patches_def ps ix cf using inside outside by auto
  have refused: "fst (setAudioPatch demo_constants (cleanUpPatches shared_sink 20)
            (patch_request 1 [30] [20])) = Inl EX_ILLEGAL_STATE"
    unfolding cleaned by (simp add: shared_sink_eval demo_defs setAudioPatch_defs)
  from before ps ix stale after refused show ?thesis by simp
qed

section \<open>Ids of ports and port configs\<close>

lemmas connect_defs = connectExternalDevice_def findById_def set_insert_def Let_def

lemmas setAudioPortConfig_defs = setAudioPortConfig_def setAudioPortConfig_decide_def
  generateDefaultPortConfig_def findAudioProfile_def negotiate_flags_def negotiate_format_def
  negotiate_channelMask_def negotiate_sampleRate_def negotiate_gain_def findById_def Let_def

lemma usb_connected_eval:
  "usb_connected = usb_demo
     \<lparr>ports := [mix_port 1, device_port 2 ''usb'' [],
                (device_port 4 ''usb'' [demo_profile])
                  \<lparr>port_ext := Tag_device \<lparr>dev_type = 2, connection = ''usb'',
                                             address = ''card=1''\<rparr>\<rparr>],
      routes := [\<lparr>sourcePortIds = [1], sinkPortId = 2, isExclusive = False\<rparr>,
                 \<lparr>sourcePortIds = [1], sinkPortId = 4, isExclusive = False\<rparr>],
      nextPortId := 4,
      mConnectedDevicePorts := [4]\<rparr>"
  by (simp add: usb_connected_def usb_demo_def usb_request_def empty_module_def mix_port_def
        device_port_def connect_defs)

text \<open>
  Claim C9 fails on the code. \<open>connectExternalDevice\<close> takes \<open>++nextPortId\<close> and
  \<open>setAudioPortConfig\<close> takes \<open>nextPortId++\<close>: the device port connected in \<open>usb_demo\<close>
  gets id 4 and leaves the counter at 4, so the next port config gets id 4 as well. A
  config made for the connected port then has the id of its own port, and
  \<open>findPortIdForNewStream\<close> on it fails its \<open>CHECK\<close>; a config made for mix port 1 gets the
  id of port 4.
\<close>

theorem port_config_id_reuses_port_id:
  "map_sum id port_id (fst (connectExternalDevice usb_demo usb_request)) = Inr 4
   \<and> nextPortId usb_connected = 4
   \<and> map_sum id (\<lambda>r. (cfg_id (fst r), portId (fst r), snd r))
        (fst (setAudioPortConfig usb_connected (config_of 0 4))) = Inr (4, 4, True)
   \<and> findPortIdForNewStream usb_configured 4 = Inl Aborted
   \<and> map_sum id (\<lambda>r. (cfg_id (fst r), portId (fst r), snd r))
        (fst (setAudioPortConfig usb_connected (config_of 0 1))) = Inr (4, 1, True)"
proof -
  have c: "map_sum id port_id (fst (connectExternalDevice usb_demo usb_request)) = Inr 4"
    by (simp add: usb_demo_def usb_request_def empty_module_def mix_port_def
          device_port_def connect_defs)
  have n: "nextPortId usb_connected = 4"
    by (simp add: usb_connected_eval)
  have own: "setAudioPortConfig usb_connected (config_of 0 4)
      = (Inr ((config_of 4 4)
                \<lparr>cfg_ext := Tag_device \<lparr>dev_type = 2, connection = ''usb'',
                                          address = ''card=1''\<rparr>\<rparr>, True),
         usb_connected
           \<lparr>nextPortId := 5,
            portConfigs := [(config_of 4 4)
                \<lparr>cfg_ext := Tag_device \<lparr>dev_type = 2, connection = ''usb'',
                                          address = ''card=1''\<rparr>\<rparr>]\<rparr>)"
    by (simp add: usb_connected_eval usb_demo_def empty_module_def mix_port_def device_port_def
          config_of_def demo_profile_def setAudioPortConfig_defs)
  have chk: "findPortIdForNewStream usb_configured 4 = Inl Aborted"
    unfolding usb_configured_def own
    by (simp add: findPortIdForNewStream_def findById_def config_of_def)
  have other: "map_sum id (\<lambda>r. (cfg_id (fst r), portId (fst r), snd r))
        (fst (setAudioPortConfig usb_connected (config_of 0 1))) = Inr (4, 1, True)"
    by (simp add: usb_connected_eval usb_demo_def empty_module_def mix_port_def device_port_def
          config_of_def demo_profile_def setAudioPortConfig_defs)
  have "map_sum id (\<lambda>r. (cfg_id (fst r), portId (fst r), snd r))
        (fst (setAudioPortConfig usb_connected (config_of 0 4))) = Inr (4, 4, True)"
    unfolding own by (simp add: config_of_def)
  with c n chk other show ?thesis by simp
qed

section \<open>Connecting and disconnecting an external device\<close>

lemma disconnect_routes_append:
  "disconnect_routes c (xs @ ys) = disconnect_routes c xs @ disconnect_routes c ys"
  by (induction xs) simp_all

lemma connect_routes_new_sinks:
  "connect_routes t c rs = (u, nr) \<Longrightarrow> \<forall>r\<in>set nr. sinkPortId r = c"
  by (induction rs arbitrary: u nr) (auto simp: Let_def split: prod.splits if_splits)

lemma disconnect_routes_all_sinks: "\<forall>r\<in>set nr. sinkPortId r = c \<Longrightarrow> disconnect_routes c nr = []"
  by (induction nr) simp_all

lemma strip_appended: "c \<notin> set srcs \<Longrightarrow> erase_if (srcs @ [c]) (\<lambda>src. src = c) = srcs"
  by (auto simp: erase_if_def filter_id_conv)

lemma strip_absent: "c \<notin> set srcs \<Longrightarrow> erase_if srcs (\<lambda>src. src = c) = srcs"
  by (auto simp: erase_if_def filter_id_conv)

lemma disconnect_routes_updated:
  assumes "connect_routes t c rs = (u, nr)"
    and "\<forall>r\<in>set rs. sinkPortId r \<noteq> c \<and> c \<notin> set (sourcePortIds r)"
  shows "disconnect_routes c u = rs"
  using assms
proof (induction rs arbitrary: u nr)
  case Nil
  then show ?case by simp
next
  case (Cons r rs)
  obtain u' nr' where rest: "connect_routes t c rs = (u', nr')"
    by (cases "connect_routes t c rs")
  from Cons.prems(2) have fresh: "sinkPortId r \<noteq> c" "c \<notin> set (sourcePortIds r)"
    and others: "\<forall>r\<in>set rs. sinkPortId r \<noteq> c \<and> c \<notin> set (sourcePortIds r)"
    by simp_all
  from Cons.IH [OF rest others] have ih: "disconnect_routes c u' = rs" .
  from Cons.prems(1) rest fresh ih show ?case
    by (auto simp: strip_appended strip_absent split: if_splits)
qed

lemma connect_then_disconnect_routes:
  assumes "connect_routes t c rs = (u, nr)"
    and "\<forall>r\<in>set rs. sinkPortId r \<noteq> c \<and> c \<notin> set (sourcePortIds r)"
  shows "disconnect_routes c (u @ nr) = rs"
  using disconnect_routes_updated [OF assms] connect_routes_new_sinks [OF assms(1)]
  by (simp add: disconnect_routes_append disconnect_routes_all_sinks)

lemma connectExternalDevice_success:
  assumes "connectExternalDevice s tpl = (Inr newPort, s1)"
  shows "\<exists>d u nr. port_id newPort = nextPortId s + 1
           \<and> port_ext newPort = Tag_device d
           \<and> connect_routes (port_id tpl) (nextPortId s + 1) (routes s) = (u, nr)
           \<and> s1 = s\<lparr>nextPortId := nextPortId s + 1,
                    mConnectedDevicePorts := set_insert (nextPortId s + 1) (mConnectedDevicePorts s),
                    ports := ports s @ [newPort],
                    routes := u @ nr\<rparr>"
  using assms
  by (auto simp: connectExternalDevice_def Let_def
           split: option.splits AudioPortExt.splits if_splits prod.splits)

text \<open>
  The counter discipline is kept by the operations that change ports, port configs,
  routes or the counter.
\<close>

lemma connect_routes_bounded:
  assumes "connect_routes t c rs = (u, nr)"
    and "list_all (route_bounded c) rs"
  shows "list_all (route_bounded c) (u @ nr)"
  using assms
proof (induction rs arbitrary: u nr)
  case Nil
  then show ?case by simp
next
  case (Cons r rs)
  obtain u' nr' where rest: "connect_routes t c rs = (u', nr')"
    by (cases "connect_routes t c rs")
  from Cons.IH [OF rest] Cons.prems(2)
  have ih: "list_all (route_bounded c) u'" "list_all (route_bounded c) nr'"
    by simp_all
  from Cons.prems(2) have r: "route_bounded c r" by simp
  show ?case
  proof (cases "sinkPortId r = t")
    case True
    with Cons.prems(1) rest have "u = r # u'"
      and "nr = \<lparr>sourcePortIds = sourcePortIds r, sinkPortId = c,
                   isExclusive = isExclusive r\<rparr> # nr'"
      by simp_all
    moreover from r have "route_bounded c \<lparr>sourcePortIds = sourcePortIds r, sinkPortId = c,
                   isExclusive = isExclusive r\<rparr>"
      by (simp add: route_bounded_def)
    ultimately show ?thesis using ih r by simp
  next
    case False
    show ?thesis
    proof (cases "t \<in> set (sourcePortIds r)")
      case True
      with False Cons.prems(1) rest
      have "u = r\<lparr>sourcePortIds := sourcePortIds r @ [c]\<rparr> # u'" and "nr = nr'"
        by simp_all
      moreover from r have "route_bounded c (r\<lparr>sourcePortIds := sourcePortIds r @ [c]\<rparr>)"
        by (simp add: route_bounded_def)
      ultimately show ?thesis using ih by simp
    next
      case no: False
      with False Cons.prems(1) rest have "u = r # u'" and "nr = nr'"
        by simp_all
      with ih r show ?thesis by simp
    qed
  qed
qed

lemma route_bounded_mono: "n \<le> m \<Longrightarrow> route_bounded n r \<Longrightarrow> route_bounded m r"
  by (auto simp: route_bounded_def list_all_iff)

lemma route_bounded_strip:
  "route_bounded n r \<Longrightarrow> route_bounded n (r\<lparr>sourcePortIds := erase_if (sourcePortIds r) P\<rparr>)"
  by (simp add: route_bounded_def erase_if_def list_all_iff)

lemma route_bounded_fresh:
  "route_bounded n r \<Longrightarrow> sinkPortId r \<noteq> n + 1 \<and> n + 1 \<notin> set (sourcePortIds r)"
proof -
  assume b: "route_bounded n r"
  then have "sinkPortId r \<le> n" by (simp add: route_bounded_def)
  moreover have "n + 1 \<notin> set (sourcePortIds r)"
  proof
    assume m: "n + 1 \<in> set (sourcePortIds r)"
    from b have "\<forall>i\<in>set (sourcePortIds r). i \<le> n"
      by (simp add: route_bounded_def list_all_iff)
    from bspec [OF this m] show False by simp
  qed
  ultimately show ?thesis by simp
qed

lemma disconnect_routes_bounded:
  "list_all (route_bounded n) rs \<Longrightarrow> list_all (route_bounded n) (disconnect_routes c rs)"
  by (induction rs) (simp_all add: route_bounded_strip)

lemma connectExternalDevice_within_counter:
  assumes "port_ids_within_counter s"
  shows "port_ids_within_counter (snd (connectExternalDevice s tpl))"
proof (cases "fst (connectExternalDevice s tpl)")
  case (Inl e)
  then have "snd (connectExternalDevice s tpl) = s"
    by (auto simp: connectExternalDevice_def Let_def
             split: option.splits AudioPortExt.splits if_splits prod.splits)
  with assms show ?thesis by simp
next
  case (Inr newPort)
  then have conn: "connectExternalDevice s tpl = (Inr newPort, snd (connectExternalDevice s tpl))"
    by (simp add: prod_eq_iff)
  from connectExternalDevice_success [OF conn]
  obtain u nr where nid: "port_id newPort = nextPortId s + 1"
    and cr: "connect_routes (port_id tpl) (nextPortId s + 1) (routes s) = (u, nr)"
    and s1: "snd (connectExternalDevice s tpl) = s\<lparr>nextPortId := nextPortId s + 1,
                    mConnectedDevicePorts := set_insert (nextPortId s + 1) (mConnectedDevicePorts s),
                    ports := ports s @ [newPort],
                    routes := u @ nr\<rparr>"
    by blast
  from assms have ps: "list_all (\<lambda>p. port_id p \<le> nextPortId s) (ports s)"
    and cs: "list_all (\<lambda>c. portId c \<le> nextPortId s) (portConfigs s)"
    and rs: "list_all (route_bounded (nextPortId s)) (routes s)"
    by (simp_all add: port_ids_within_counter_def)
  from rs have "list_all (route_bounded (nextPortId s + 1)) (routes s)"
    by (simp add: list_all_iff route_bounded_mono [of "nextPortId s" "nextPortId s + 1"])
  from connect_routes_bounded [OF cr this]
  have rs': "list_all (route_bounded (nextPortId s + 1)) (u @ nr)" .
  from ps have ps': "list_all (\<lambda>p. port_id p \<le> nextPortId s + 1) (ports s)"
    by (auto simp: list_all_iff)
  from cs have cs': "list_all (\<lambda>c. portId c \<le> nextPortId s + 1) (portConfigs s)"
    by (auto simp: list_all_iff)
  from ps' cs' rs' nid show ?thesis
    unfolding s1 port_ids_within_counter_def by simp
qed

lemma disconnectExternalDevice_within_counter:
  assumes "port_ids_within_counter s"
  shows "port_ids_within_counter (snd (disconnectExternalDevice s i))"
proof (cases "fst (disconnectExternalDevice s i)")
  case (Inl e)
  then have "snd (disconnectExternalDevice s i) = s"
    by (auto simp: disconnectExternalDevice_def split: option.splits AudioPortExt.splits if_splits)
  with assms show ?thesis by simp
next
  case (Inr u)
  then obtain n where s1: "snd (disconnectExternalDevice s i)
      = s\<lparr>ports := erase_at n (ports s),
          mConnectedDevicePorts := set_erase i (mConnectedDevicePorts s),
          routes := disconnect_routes i (routes s)\<rparr>"
    by (auto simp: disconnectExternalDevice_def split: option.splits AudioPortExt.splits if_splits)
  from assms have ps: "list_all (\<lambda>p. port_id p \<le> nextPortId s) (ports s)"
    and cs: "list_all (\<lambda>c. portId c \<le> nextPortId s) (portConfigs s)"
    and rs: "list_all (route_bounded (nextPortId s)) (routes s)"
    by (simp_all add: port_ids_within_counter_def)
  from ps erase_at_subset [of n "ports s"]
  have ps': "list_all (\<lambda>p. port_id p \<le> nextPortId s) (erase_at n (ports s))"
    by (auto simp: list_all_iff)
  from ps' cs disconnect_routes_bounded [OF rs, of i] show ?thesis
    unfolding s1 port_ids_within_counter_def by simp
qed

text \<open>
  Claim C5. In a store that keeps the counter discipline of port ids, when
  \<open>connectExternalDevice\<close> succeeds and returns a new port, \<open>disconnectExternalDevice\<close> on
  the id of that port, called on the resulting store, succeeds, and the port list and the
  route list are again the lists from before the connect, element by element.
\<close>

theorem connect_then_disconnect_restores:
  assumes conn: "connectExternalDevice s tpl = (Inr newPort, s1)"
    and wf: "port_ids_within_counter s"
  shows "\<exists>s2. disconnectExternalDevice s1 (port_id newPort) = (Inr (), s2)
            \<and> ports s2 = ports s \<and> routes s2 = routes s"
proof -
  let ?c = "nextPortId s + 1"
  from connectExternalDevice_success [OF conn]
  obtain d u nr where nid: "port_id newPort = ?c"
    and dev: "port_ext newPort = Tag_device d"
    and cr: "connect_routes (port_id tpl) ?c (routes s) = (u, nr)"
    and s1: "s1 = s\<lparr>nextPortId := ?c,
                    mConnectedDevicePorts := set_insert ?c (mConnectedDevicePorts s),
                    ports := ports s @ [newPort],
                    routes := u @ nr\<rparr>"
    by blast
  have fresh_port: "\<forall>p\<in>set (ports s). port_id p \<noteq> ?c"
  proof
    fix p assume "p \<in> set (ports s)"
    with wf have "port_id p \<le> nextPortId s"
      by (simp add: port_ids_within_counter_def list_all_iff)
    then show "port_id p \<noteq> ?c" by simp
  qed
  have fresh_cfg: "\<forall>c\<in>set (portConfigs s). portId c \<noteq> ?c"
  proof
    fix c assume "c \<in> set (portConfigs s)"
    with wf have "portId c \<le> nextPortId s"
      by (simp add: port_ids_within_counter_def list_all_iff)
    then show "portId c \<noteq> ?c" by simp
  qed
  have fresh_route: "\<forall>r\<in>set (routes s). sinkPortId r \<noteq> ?c \<and> ?c \<notin> set (sourcePortIds r)"
  proof
    fix r assume "r \<in> set (routes s)"
    with wf have "route_bounded (nextPortId s) r"
      by (simp add: port_ids_within_counter_def list_all_iff)
    then show "sinkPortId r \<noteq> ?c \<and> ?c \<notin> set (sourcePortIds r)"
      by (rule route_bounded_fresh)
  qed
  from fresh_port nid
  have found: "findById port_id (ports s1) ?c = Some (length (ports s))"
    by (simp add: s1 findById_def find_pos_append_fresh)
  have member: "?c \<in> set (mConnectedDevicePorts s1)"
    by (simp add: s1 set_insert_def set_insort_key)
  from fresh_cfg have none: "find_pos (nonDefaultConfig (initialConfigs s1) ?c) (portConfigs s1) = None"
    by (simp add: s1 find_pos_None nonDefaultConfig_def)
  have rs: "disconnect_routes ?c (routes s1) = routes s"
    using connect_then_disconnect_routes [OF cr fresh_route] by (simp add: s1)
  have ps: "erase_at (length (ports s)) (ports s1) = ports s"
    by (simp add: s1 erase_at_appended)
  have nth: "ports s1 ! length (ports s) = newPort"
    by (simp add: s1)
  show ?thesis
    using found member none rs ps nth dev nid
    by (simp add: disconnectExternalDevice_def)
qed

theorem connect_then_disconnect_restores_witness:
  "map_sum id port_id (fst (connectExternalDevice usb_demo usb_request)) = Inr 4
   \<and> fst (disconnectExternalDevice usb_connected 4) = Inr ()
   \<and> ports (snd (disconnectExternalDevice usb_connected 4)) = ports usb_demo
   \<and> routes (snd (disconnectExternalDevice usb_connected 4)) = routes usb_demo
   \<and> ports usb_connected \<noteq> ports usb_demo
   \<and> routes usb_connected \<noteq> routes usb_demo"
proof -
  obtain newPort where conn: "connectExternalDevice usb_demo usb_request = (Inr newPort, usb_connected)"
    and nid: "port_id newPort = 4"
    by (simp add: usb_connected_def usb_demo_def usb_request_def empty_module_def mix_port_def
          device_port_def connect_defs)
  have wf: "port_ids_within_counter usb_demo"
    by (simp add: port_ids_within_counter_def route_bounded_def usb_demo_def empty_module_def
          mix_port_def device_port_def)
  from connect_then_disconnect_restores [OF conn wf] nid
  obtain s2 where "disconnectExternalDevice usb_connected 4 = (Inr (), s2)"
    and "ports s2 = ports usb_demo" and "routes s2 = routes usb_demo"
    by auto
  moreover have "ports usb_connected \<noteq> ports usb_demo" "routes usb_connected \<noteq> routes usb_demo"
    by (simp_all add: usb_connected_eval usb_demo_def empty_module_def)
  ultimately show ?thesis using conn nid by simp
qed

section \<open>Port config negotiation\<close>

lemma findAudioProfile_None:
  "findAudioProfile port fmt = None \<longleftrightarrow> \<not> list_ex (\<lambda>profile. prof_format profile = fmt) (profiles port)"
  by (auto simp: findAudioProfile_def find_None_iff list_ex_iff)

lemma findAudioProfile_Some:
  "findAudioProfile port fmt = Some profile
   \<Longrightarrow> list_ex (\<lambda>profile. prof_format profile = fmt) (profiles port)"
  using findAudioProfile_None [of port fmt] by auto

lemma negotiate_flags_result:
  "requestedIsValid (negotiate_flags port req n)
     = (requestedIsValid n \<and> (case cfg_flags req of None \<Rightarrow> True | Some f \<Rightarrow> f = port_flags port))"
  "requestedIsFullySpecified (negotiate_flags port req n)
     = (requestedIsFullySpecified n \<and> cfg_flags req \<noteq> None)"
  "out_suggested (negotiate_flags port req n) = out_suggested n"
  by (auto simp: negotiate_flags_def split: option.splits)

lemma negotiate_format_result:
  "requestedIsValid (negotiate_format port req n)
     = (requestedIsValid n
        \<and> (case format req of
              None \<Rightarrow> True
            | Some fmt \<Rightarrow> list_ex (\<lambda>profile. prof_format profile = fmt) (profiles port)))"
  "requestedIsFullySpecified (negotiate_format port req n)
     = (requestedIsFullySpecified n \<and> format req \<noteq> None)"
  "format (out_suggested (negotiate_format port req n)) = suggestedFormat port (out_suggested n) req"
  "cfg_id (out_suggested (negotiate_format port req n)) = cfg_id (out_suggested n)"
  "portId (out_suggested (negotiate_format port req n)) = portId (out_suggested n)"
  by (auto simp: negotiate_format_def suggestedFormat_def findAudioProfile_None
           dest: findAudioProfile_Some split: option.splits)

lemma negotiate_channelMask_result:
  "requestedIsValid (negotiate_channelMask matching req n)
     = (requestedIsValid n
        \<and> (case channelMask req of None \<Rightarrow> True | Some layout \<Rightarrow> layout \<in> set (channelMasks matching)))"
  "requestedIsFullySpecified (negotiate_channelMask matching req n)
     = (requestedIsFullySpecified n \<and> channelMask req \<noteq> None)"
  "cfg_id (out_suggested (negotiate_channelMask matching req n)) = cfg_id (out_suggested n)"
  "portId (out_suggested (negotiate_channelMask matching req n)) = portId (out_suggested n)"
  by (auto simp: negotiate_channelMask_def split: option.splits)

lemma negotiate_sampleRate_result:
  "requestedIsValid (negotiate_sampleRate matching req n)
     = (requestedIsValid n
        \<and> (case sampleRate req of None \<Rightarrow> True | Some rate \<Rightarrow> rate \<in> set (sampleRates matching)))"
  "requestedIsFullySpecified (negotiate_sampleRate matching req n)
     = (requestedIsFullySpecified n \<and> sampleRate req \<noteq> None)"
  "cfg_id (out_suggested (negotiate_sampleRate matching req n)) = cfg_id (out_suggested n)"
  "portId (out_suggested (negotiate_sampleRate matching req n)) = portId (out_suggested n)"
  by (auto simp: negotiate_sampleRate_def split: option.splits)

lemma negotiate_gain_result:
  "requestedIsValid (negotiate_gain req n) = requestedIsValid n"
  "requestedIsFullySpecified (negotiate_gain req n) = requestedIsFullySpecified n"
  "cfg_id (out_suggested (negotiate_gain req n)) = cfg_id (out_suggested n)"
  "portId (out_suggested (negotiate_gain req n)) = portId (out_suggested n)"
  by (auto simp: negotiate_gain_def split: option.splits)

lemmas negotiate_results = negotiate_flags_result negotiate_format_result
  negotiate_channelMask_result negotiate_sampleRate_result negotiate_gain_result

lemma negotiated_suggestion:
  "out_suggested (negotiate_gain req (negotiate_sampleRate m req
     (negotiate_channelMask m req (negotiate_format port req (negotiate_flags port req
        \<lparr>out_suggested = seed, requestedIsValid = True, requestedIsFullySpecified = True\<rparr>)))))
   = suggestedConfig port m seed req"
  by (auto simp: negotiate_flags_def negotiate_format_def negotiate_channelMask_def
        negotiate_sampleRate_def negotiate_gain_def suggestedConfig_def suggestedFormat_def
        findAudioProfile_None
      dest: findAudioProfile_Some split: option.splits)

text \<open>
  Claim C4. Take a request that gets as far as the decision: its id is 0 or that of a
  config in the store, the owning port exists, the suggestion has a seed (the existing
  config, or the default config of the port) and the format of the suggestion is that of
  a profile of the port, the matching profile. The suggestion \<open>sug\<close> is the seed with the
  valid supplied fields of the request copied into it. For id 0, the suggestion is
  appended with \<open>nextPortId\<close> as its id, the counter advances and \<open>applied\<close> is true
  exactly when every supplied field is valid and all four fields are supplied. For an
  existing config, the suggestion is written over it, at its position, and \<open>applied\<close> is
  true exactly when every supplied field is valid, whether or not fields are absent. In
  every other case the module is unchanged and the suggestion is returned with \<open>applied\<close>
  false.
\<close>

theorem setAudioPortConfig_decision:
  assumes existing: "existing = (if cfg_id req = 0 then None
                                 else findById cfg_id (portConfigs s) (cfg_id req))"
    and target: "cfg_id req = 0 \<or> existing \<noteq> None"
    and owner: "pId = (case existing of None \<Rightarrow> portId req
                                       | Some i \<Rightarrow> portId (portConfigs s ! i))"
      "pId \<noteq> 0"
    and port: "findById port_id (ports s) pId = Some pi"
    and seed: "(case existing of None \<Rightarrow> generateDefaultPortConfig (ports s ! pi)
                                | Some i \<Rightarrow> Some (portConfigs s ! i)) = Some seed"
    and fmt: "suggestedFormat (ports s ! pi) seed req = Some fmt"
    and matching: "findAudioProfile (ports s ! pi) fmt = Some matching"
    and sug: "sug = suggestedConfig (ports s ! pi) matching seed req"
  shows "(case existing of
            None \<Rightarrow>
              if suppliedFieldsValid (ports s ! pi) matching req \<and> fullySpecified req
              then setAudioPortConfig s req
                     = (Inr (sug\<lparr>cfg_id := nextPortId s\<rparr>, True),
                        s\<lparr>nextPortId := nextPortId s + 1,
                          portConfigs := portConfigs s @ [sug\<lparr>cfg_id := nextPortId s\<rparr>]\<rparr>)
              else setAudioPortConfig s req = (Inr (sug, False), s)
          | Some i \<Rightarrow>
              if suppliedFieldsValid (ports s ! pi) matching req
              then setAudioPortConfig s req
                     = (Inr (sug, True), s\<lparr>portConfigs := (portConfigs s)[i := sug]\<rparr>)
              else setAudioPortConfig s req = (Inr (sug, False), s))"
proof -
  let ?port = "ports s ! pi"
  let ?n0 = "\<lparr>out_suggested = seed, requestedIsValid = True, requestedIsFullySpecified = True\<rparr>"
  let ?n2 = "negotiate_format ?port req (negotiate_flags ?port req ?n0)"
  let ?n5 = "negotiate_gain req (negotiate_sampleRate matching req
               (negotiate_channelMask matching req ?n2))"
  have f2: "format (out_suggested ?n2) = Some fmt"
    using fmt by (simp add: negotiate_results)
  have valid: "requestedIsValid ?n5 = suppliedFieldsValid ?port matching req"
    by (simp add: negotiate_results suppliedFieldsValid_def)
  have full: "requestedIsFullySpecified ?n5 = fullySpecified req"
    by (simp add: negotiate_results fullySpecified_def)
  have out: "out_suggested ?n5 = sug"
    unfolding sug by (rule negotiated_suggestion)
  have run: "setAudioPortConfig s req = setAudioPortConfig_decide s existing ?n5"
  proof (cases existing)
    case None
    with existing target have z: "cfg_id req = 0" by auto
    from None owner have "pId = portId req" by simp
    with None z owner(2) port seed f2 matching show ?thesis
      by (simp add: setAudioPortConfig_def Let_def)
  next
    case (Some i)
    with existing have nz: "cfg_id req \<noteq> 0"
      and e: "findById cfg_id (portConfigs s) (cfg_id req) = Some i"
      by (auto split: if_splits)
    from Some owner have "pId = portId (portConfigs s ! i)" by simp
    with Some nz e owner(2) port seed f2 matching show ?thesis
      by (simp add: setAudioPortConfig_def Let_def)
  qed
  show ?thesis
    unfolding run
    by (simp add: out valid full setAudioPortConfig_decide_def Let_def split: option.splits)
qed

lemma configured_demo_eval:
  "configured_demo = usb_demo
     \<lparr>nextPortId := 4,
      portConfigs := [(config_of 3 1)\<lparr>cfg_ext := Tag_mix \<lparr>maxOpenStreamCount = 0\<rparr>\<rparr>]\<rparr>"
  by (simp add: configured_demo_def usb_demo_def empty_module_def mix_port_def device_port_def
        config_of_def demo_profile_def setAudioPortConfig_defs)

lemma config_of_sel:
  "cfg_id (config_of i p) = i" "portId (config_of i p) = p"
  "cfg_id (r\<lparr>sampleRate := x\<rparr>) = cfg_id r" "portId (r\<lparr>sampleRate := x\<rparr>) = portId r"
  "cfg_id gain_request = 3" "cfg_id rate_request = 3"
  by (simp_all add: config_of_def gain_request_def rate_request_def)

theorem setAudioPortConfig_decision_witness:
  "setAudioPortConfig usb_demo (config_of 0 1)
     = (Inr ((config_of 3 1)\<lparr>cfg_ext := Tag_mix \<lparr>maxOpenStreamCount = 0\<rparr>\<rparr>, True),
        usb_demo\<lparr>nextPortId := 4,
                 portConfigs := [(config_of 3 1)\<lparr>cfg_ext := Tag_mix \<lparr>maxOpenStreamCount = 0\<rparr>\<rparr>]\<rparr>)
   \<and> setAudioPortConfig usb_demo ((config_of 0 1)\<lparr>sampleRate := None\<rparr>)
     = (Inr ((config_of 0 1)\<lparr>cfg_ext := Tag_mix \<lparr>maxOpenStreamCount = 0\<rparr>\<rparr>, False), usb_demo)
   \<and> setAudioPortConfig configured_demo gain_request
     = (Inr ((config_of 3 1)\<lparr>gain := Some 5, cfg_ext := Tag_mix \<lparr>maxOpenStreamCount = 0\<rparr>\<rparr>, True),
        configured_demo
          \<lparr>portConfigs :=
             [(config_of 3 1)\<lparr>gain := Some 5, cfg_ext := Tag_mix \<lparr>maxOpenStreamCount = 0\<rparr>\<rparr>]\<rparr>)
   \<and> setAudioPortConfig configured_demo rate_request
     = (Inr ((config_of 3 1)\<lparr>gain := Some 5, cfg_ext := Tag_mix \<lparr>maxOpenStreamCount = 0\<rparr>\<rparr>, False),
        configured_demo)"
proof -
  let ?seed = "(config_of 0 1)\<lparr>cfg_ext := Tag_mix \<lparr>maxOpenStreamCount = 0\<rparr>\<rparr>"
  let ?old = "(config_of 3 1)\<lparr>cfg_ext := Tag_mix \<lparr>maxOpenStreamCount = 0\<rparr>\<rparr>"
  let ?new = "(config_of 3 1)\<lparr>gain := Some 5, cfg_ext := Tag_mix \<lparr>maxOpenStreamCount = 0\<rparr>\<rparr>"
  let ?partial = "(config_of 0 1)\<lparr>sampleRate := None\<rparr>"
  have port: "findById port_id (ports usb_demo) 1 = Some 0"
    "findById port_id (ports configured_demo) 1 = Some 0"
    by (simp_all add: configured_demo_eval usb_demo_def empty_module_def mix_port_def findById_def)
  have p0: "ports usb_demo ! 0 = mix_port 1" "ports configured_demo ! 0 = mix_port 1"
    by (simp_all add: configured_demo_eval usb_demo_def empty_module_def)
  have seed: "generateDefaultPortConfig (mix_port 1) = Some ?seed"
    by (simp add: generateDefaultPortConfig_def mix_port_def demo_profile_def config_of_def)
  have prof: "findAudioProfile (mix_port 1) pcm16 = Some demo_profile"
    by (simp add: findAudioProfile_def mix_port_def demo_profile_def)
  have none: "portConfigs usb_demo = []" "nextPortId usb_demo = 3"
    by (simp_all add: usb_demo_def empty_module_def)
  have cfgs: "portConfigs configured_demo = [?old]"
    by (simp add: configured_demo_eval)
  have old: "findById cfg_id (portConfigs configured_demo) 3 = Some 0"
    by (simp add: cfgs findById_def config_of_def)
  have valid: "suppliedFieldsValid (mix_port 1) demo_profile (config_of 0 1)"
    "fullySpecified (config_of 0 1)"
    "suppliedFieldsValid (mix_port 1) demo_profile ?partial"
    "\<not> fullySpecified ?partial"
    "suppliedFieldsValid (mix_port 1) demo_profile gain_request"
    "\<not> suppliedFieldsValid (mix_port 1) demo_profile rate_request"
    by (simp_all add: suppliedFieldsValid_def fullySpecified_def config_of_def mix_port_def
          demo_profile_def gain_request_def rate_request_def)
  have f: "suggestedFormat (mix_port 1) ?seed (config_of 0 1) = Some pcm16"
    "suggestedFormat (mix_port 1) ?seed ?partial = Some pcm16"
    "suggestedFormat (mix_port 1) ?old gain_request = Some pcm16"
    "suggestedFormat (mix_port 1) ?old rate_request = Some pcm16"
    by (simp_all add: suggestedFormat_def config_of_def mix_port_def demo_profile_def
          gain_request_def rate_request_def)
  have sugs: "?seed = suggestedConfig (mix_port 1) demo_profile ?seed (config_of 0 1)"
    "?seed = suggestedConfig (mix_port 1) demo_profile ?seed ?partial"
    "?new = suggestedConfig (mix_port 1) demo_profile ?old gain_request"
    "?new = suggestedConfig (mix_port 1) demo_profile ?old rate_request"
    by (simp_all add: suggestedConfig_def suggestedFormat_def config_of_def mix_port_def
          demo_profile_def gain_request_def rate_request_def)
  have created: "setAudioPortConfig usb_demo (config_of 0 1)
     = (Inr (?old, True), usb_demo\<lparr>nextPortId := 4, portConfigs := [?old]\<rparr>)"
  proof -
    have h: "None = (if cfg_id (config_of 0 1) = 0 then None
                     else findById cfg_id (portConfigs usb_demo) (cfg_id (config_of 0 1)))"
      "cfg_id (config_of 0 1) = 0 \<or> (None :: nat option) \<noteq> None"
      "1 = (case None :: nat option of None \<Rightarrow> portId (config_of 0 1)
                                      | Some i \<Rightarrow> portId (portConfigs usb_demo ! i))"
      "(1 :: int) \<noteq> 0"
      "(case None :: nat option of None \<Rightarrow> generateDefaultPortConfig (ports usb_demo ! 0)
                                  | Some i \<Rightarrow> Some (portConfigs usb_demo ! i)) = Some ?seed"
      "suggestedFormat (ports usb_demo ! 0) ?seed (config_of 0 1) = Some pcm16"
      "findAudioProfile (ports usb_demo ! 0) pcm16 = Some demo_profile"
      "?seed = suggestedConfig (ports usb_demo ! 0) demo_profile ?seed (config_of 0 1)"
      using sugs(1) by (simp_all add: config_of_sel p0 seed prof f)
    from setAudioPortConfig_decision [OF h(1,2,3,4) port(1) h(5,6,7,8)] valid(1,2)
    show ?thesis by (simp add: p0 none config_of_def)
  qed
  have declined: "setAudioPortConfig usb_demo ?partial = (Inr (?seed, False), usb_demo)"
  proof -
    have h: "None = (if cfg_id ?partial = 0 then None
                     else findById cfg_id (portConfigs usb_demo) (cfg_id ?partial))"
      "cfg_id ?partial = 0 \<or> (None :: nat option) \<noteq> None"
      "1 = (case None :: nat option of None \<Rightarrow> portId ?partial
                                      | Some i \<Rightarrow> portId (portConfigs usb_demo ! i))"
      "(1 :: int) \<noteq> 0"
      "(case None :: nat option of None \<Rightarrow> generateDefaultPortConfig (ports usb_demo ! 0)
                                  | Some i \<Rightarrow> Some (portConfigs usb_demo ! i)) = Some ?seed"
      "suggestedFormat (ports usb_demo ! 0) ?seed ?partial = Some pcm16"
      "findAudioProfile (ports usb_demo ! 0) pcm16 = Some demo_profile"
      "?seed = suggestedConfig (ports usb_demo ! 0) demo_profile ?seed ?partial"
      using sugs(2) by (simp_all add: config_of_sel p0 seed prof f)
    from setAudioPortConfig_decision [OF h(1,2,3,4) port(1) h(5,6,7,8)] valid(3,4)
    show ?thesis by (simp add: p0)
  qed
  have updated: "setAudioPortConfig configured_demo gain_request
     = (Inr (?new, True), configured_demo\<lparr>portConfigs := [?new]\<rparr>)"
  proof -
    have h: "Some 0 = (if cfg_id gain_request = 0 then None
                       else findById cfg_id (portConfigs configured_demo) (cfg_id gain_request))"
      "cfg_id gain_request = 0 \<or> Some (0 :: nat) \<noteq> None"
      "1 = (case Some (0 :: nat) of None \<Rightarrow> portId gain_request
                                  | Some i \<Rightarrow> portId (portConfigs configured_demo ! i))"
      "(1 :: int) \<noteq> 0"
      "(case Some (0 :: nat) of None \<Rightarrow> generateDefaultPortConfig (ports configured_demo ! 0)
                              | Some i \<Rightarrow> Some (portConfigs configured_demo ! i)) = Some ?old"
      "suggestedFormat (ports configured_demo ! 0) ?old gain_request = Some pcm16"
      "findAudioProfile (ports configured_demo ! 0) pcm16 = Some demo_profile"
      "?new = suggestedConfig (ports configured_demo ! 0) demo_profile ?old gain_request"
      using old sugs(3) by (simp_all add: config_of_sel p0 prof f cfgs)
    from setAudioPortConfig_decision [OF h(1,2,3,4) port(2) h(5,6,7,8)] valid(5)
    show ?thesis by (simp add: p0 cfgs)
  qed
  have refused: "setAudioPortConfig configured_demo rate_request
     = (Inr (?new, False), configured_demo)"
  proof -
    have h: "Some 0 = (if cfg_id rate_request = 0 then None
                       else findById cfg_id (portConfigs configured_demo) (cfg_id rate_request))"
      "cfg_id rate_request = 0 \<or> Some (0 :: nat) \<noteq> None"
      "1 = (case Some (0 :: nat) of None \<Rightarrow> portId rate_request
                                  | Some i \<Rightarrow> portId (portConfigs configured_demo ! i))"
      "(1 :: int) \<noteq> 0"
      "(case Some (0 :: nat) of None \<Rightarrow> generateDefaultPortConfig (ports configured_demo ! 0)
                              | Some i \<Rightarrow> Some (portConfigs configured_demo ! i)) = Some ?old"
      "suggestedFormat (ports configured_demo ! 0) ?old rate_request = Some pcm16"
      "findAudioProfile (ports configured_demo ! 0) pcm16 = Some demo_profile"
      "?new = suggestedConfig (ports configured_demo ! 0) demo_profile ?old rate_request"
      using old sugs(4) by (simp_all add: config_of_sel p0 prof f cfgs)
    from setAudioPortConfig_decision [OF h(1,2,3,4) port(2) h(5,6,7,8)] valid(6)
    show ?thesis by (simp add: p0)
  qed
  from created declined updated refused show ?thesis by simp
qed

text \<open>A request that does not get as far as the decision fails and changes nothing.\<close>

lemma setAudioPortConfig_failure_unchanged:
  "fst (setAudioPortConfig s req) = Inl e \<Longrightarrow> snd (setAudioPortConfig s req) = s"
  by (auto simp: setAudioPortConfig_def setAudioPortConfig_decide_def Let_def
           split: option.splits if_splits)

text \<open>The counter discipline of port ids is kept by \<open>setAudioPortConfig\<close> as well.\<close>

lemma generateDefaultPortConfig_portId:
  "generateDefaultPortConfig port = Some seed \<Longrightarrow> portId seed = port_id port"
  by (auto simp: generateDefaultPortConfig_def split: list.splits)

lemma negotiated_portId:
  "portId (out_suggested (negotiate_gain req (negotiate_sampleRate m req
     (negotiate_channelMask m req (negotiate_format port req (negotiate_flags port req
        \<lparr>out_suggested = seed, requestedIsValid = True, requestedIsFullySpecified = True\<rparr>))))))
   = portId seed"
  by (simp add: negotiate_results)

lemma setAudioPortConfig_decide_within_counter:
  assumes "port_ids_within_counter s"
    and "portId (out_suggested n) \<le> nextPortId s"
  shows "port_ids_within_counter (snd (setAudioPortConfig_decide s existing n))"
proof -
  from assms(1) have ps: "list_all (\<lambda>p. port_id p \<le> nextPortId s) (ports s)"
    and cs: "\<forall>c\<in>set (portConfigs s). portId c \<le> nextPortId s"
    and rs: "list_all (route_bounded (nextPortId s)) (routes s)"
    by (simp_all add: port_ids_within_counter_def list_all_iff)
  have up: "\<forall>c\<in>set ((portConfigs s)[i := out_suggested n]). portId c \<le> nextPortId s" for i
    using cs assms(2) set_update_subset_insert [of "portConfigs s" i "out_suggested n"]
    by auto
  from ps have ps': "list_all (\<lambda>p. port_id p \<le> nextPortId s + 1) (ports s)"
    by (auto simp: list_all_iff)
  from rs have rs': "list_all (route_bounded (nextPortId s + 1)) (routes s)"
    by (simp add: list_all_iff route_bounded_mono [of "nextPortId s" "nextPortId s + 1"])
  from cs have cs': "\<forall>c\<in>set (portConfigs s). portId c \<le> nextPortId s + 1"
    by auto
  show ?thesis
    using assms ps rs up ps' rs' cs' cs
    by (auto simp: setAudioPortConfig_decide_def port_ids_within_counter_def list_all_iff Let_def
             split: option.splits)
qed

lemma default_config_within_counter:
  assumes "port_ids_within_counter s" and "findById port_id (ports s) p = Some pi"
    and "generateDefaultPortConfig (ports s ! pi) = Some seed"
  shows "portId seed \<le> nextPortId s"
proof -
  from findById_Some [OF assms(2)] have "pi < length (ports s)" by simp
  with assms(1) have "port_id (ports s ! pi) \<le> nextPortId s"
    by (simp add: port_ids_within_counter_def list_all_length)
  with generateDefaultPortConfig_portId [OF assms(3)] show ?thesis by simp
qed

lemma existing_config_within_counter:
  assumes "port_ids_within_counter s" and "findById cfg_id (portConfigs s) c = Some i"
  shows "portId (portConfigs s ! i) \<le> nextPortId s"
proof -
  from findById_Some [OF assms(2)] have "i < length (portConfigs s)" by simp
  with assms(1) show ?thesis
    by (simp add: port_ids_within_counter_def list_all_length)
qed

lemma setAudioPortConfig_within_counter:
  assumes wf: "port_ids_within_counter s"
  shows "port_ids_within_counter (snd (setAudioPortConfig s req))"
  using wf
  by (auto simp: setAudioPortConfig_def Let_def negotiated_portId
           split: option.splits if_splits
           intro!: setAudioPortConfig_decide_within_counter
           intro: default_config_within_counter existing_config_within_counter)

end
